theory Spec2Isabelle
  imports Main "HOL-Library.AList"
begin

section \<open>Go values\<close>

text \<open>
  A Go \<open>map[string]V\<close> is an association list: its entries in one iteration order, keys
  distinct. \<open>m[k] = v\<close> is \<open>AList.update k v m\<close>, the two-valued lookup
  \<open>v, ok := m[k]\<close> is \<open>map_of m k\<close>, the one-valued lookup \<open>m[k]\<close> (zero value on a
  missing key) is \<open>index m k\<close>, and \<open>for k, v := range m\<close> runs over the list. A nil map
  and an empty map are both \<open>[]\<close>; the code only reads, ranges over and takes the length
  of maps that may be nil.
\<close>

type_synonym 'v gomap = "(string \<times> 'v) list"

definition index :: "string gomap \<Rightarrow> string \<Rightarrow> string" where
  "index m k = (case map_of m k of None \<Rightarrow> [] | Some v \<Rightarrow> v)"

text \<open>
  Go errors. \<open>Errorf msg\<close> is \<open>fmt.Errorf(msg)\<close> with the verbs already filled in,
  \<open>Wrapf msg err\<close> is \<open>fmt.Errorf("msg: %w", err)\<close>, \<open>StatusError reason\<close> is an error of
  the Kubernetes API (\<open>apierrors\<close>) with its status reason, and \<open>LibError code\<close> is an
  error returned by another library (the YAML and JSON decoders, the AWS SDK).
\<close>

datatype error =
    Errorf string
  | Wrapf string error
  | StatusError string
  | LibError string

text \<open>\<open>err.Error()\<close>, which \<open>%v\<close> prints.\<close>

fun Error :: "error \<Rightarrow> string" where
  "Error (Errorf msg) = msg"
| "Error (Wrapf msg err) = msg @ '': '' @ Error err"
| "Error (StatusError reason) = reason"
| "Error (LibError code) = code"

text \<open>
  \<open>apierrors.IsNotFound\<close>: the status reason, looked for through the wrapped errors; false
  on the nil error.
\<close>

fun reason_NotFound :: "error \<Rightarrow> bool" where
  "reason_NotFound (StatusError reason) = (reason = ''NotFound'')"
| "reason_NotFound (Wrapf msg err) = reason_NotFound err"
| "reason_NotFound (Errorf msg) = False"
| "reason_NotFound (LibError code) = False"

definition IsNotFound :: "error option \<Rightarrow> bool" where
  "IsNotFound err = (case err of None \<Rightarrow> False | Some e \<Rightarrow> reason_NotFound e)"

section \<open>internal/annotation: the annotation parser\<close>

definition AnnotationKey :: string where
  "AnnotationKey = ''jasm.codnod.io/secret-sync''"

record PodAnnotation =
  Provider :: string
  Path :: string
  SecretName :: string
  Keys :: "string gomap"

record SecretSyncRequest =
  Provider :: string
  SecretPath :: string
  SecretName :: string
  Namespace :: string
  PodName :: string
  PodUID :: string
  KeyMapping :: "string gomap"

text \<open>
  \<open>ParseAnnotation\<close>. The YAML decoder \<open>yaml.Unmarshal\<close> into a \<open>PodAnnotation\<close> is a
  library function and a parameter here; a field the text does not give is left at Go's
  zero value, the empty string (the empty map for \<open>keys\<close>).
\<close>

definition ParseAnnotation ::
  "(string \<Rightarrow> error + PodAnnotation) \<Rightarrow> string \<Rightarrow> string \<Rightarrow> string \<Rightarrow> string
    \<Rightarrow> error + SecretSyncRequest" where
  "ParseAnnotation yaml_Unmarshal annotationValue namespace podName podUID =
    (if annotationValue = [] then Inl (Errorf ''annotation value is empty'')
     else case yaml_Unmarshal annotationValue of
       Inl err \<Rightarrow> Inl (Wrapf ''failed to parse annotation YAML'' err)
     | Inr podAnnotation \<Rightarrow>
         if PodAnnotation.Provider podAnnotation = [] then
           Inl (Errorf ''provider field is required'')
         else if Path podAnnotation = [] then
           Inl (Errorf ''path field is required'')
         else if PodAnnotation.SecretName podAnnotation = [] then
           Inl (Errorf ''secretName field is required'')
         else
           Inr \<lparr>SecretSyncRequest.Provider = PodAnnotation.Provider podAnnotation,
                SecretPath = Path podAnnotation,
                SecretName = PodAnnotation.SecretName podAnnotation,
                Namespace = namespace,
                PodName = podName,
                PodUID = podUID,
                KeyMapping = Keys podAnnotation\<rparr>)"

section \<open>internal/provider: the provider interface and the registry\<close>

text \<open>
  The \<open>SecretProvider\<close> interface: a value with the two methods. The context argument of
  \<open>FetchSecret\<close> carries no data the code reads and is left out.
\<close>

record SecretProvider =
  FetchSecret :: "string \<Rightarrow> error + string gomap"
  Name :: string

record ProviderRegistry =
  providers :: "SecretProvider gomap"

definition NewProviderRegistry :: ProviderRegistry where
  "NewProviderRegistry = \<lparr>providers = []\<rparr>"

definition Register :: "ProviderRegistry \<Rightarrow> SecretProvider \<Rightarrow> ProviderRegistry" where
  "Register r provider =
    r\<lparr>providers := AList.update (SecretProvider.Name provider) provider (providers r)\<rparr>"

text \<open>\<open>Get\<close> returns nil for an unknown name: \<open>None\<close>.\<close>

definition Get :: "ProviderRegistry \<Rightarrow> string \<Rightarrow> SecretProvider option" where
  "Get r name = map_of (providers r) name"

definition List :: "ProviderRegistry \<Rightarrow> string list" where
  "List r = map fst (providers r)"

section \<open>internal/provider: the AWS Secrets Manager provider\<close>

text \<open>
  What \<open>json.Unmarshal\<close> leaves in a \<open>map[string]interface{}\<close>: strings, \<open>float64\<close>
  numbers, booleans, nil, slices and maps. Floating point is not modelled: the type
  \<open>'f\<close> stands for \<open>float64\<close>, and \<open>fmt.Sprintf("%v", v)\<close> on it is the parameter
  \<open>Sprint_float\<close>.
\<close>

datatype 'f json_value =
    VString string
  | VFloat64 'f
  | VBool bool
  | VNil
  | VSlice "'f json_value list"
  | VMap "(string \<times> 'f json_value) list"

text \<open>\<open>fmt.Sprintf("%v", v)\<close> on a bool.\<close>

definition Sprint_bool :: "bool \<Rightarrow> string" where
  "Sprint_bool v = (if v then ''true'' else ''false'')"

text \<open>
  The type switch of \<open>FetchSecret\<close>, the value stored under one key. \<open>json_Marshal\<close> is
  \<open>json.Marshal\<close>, a library function and a parameter; the code discards its error.
\<close>

fun convert_value :: "('f \<Rightarrow> string) \<Rightarrow> ('f json_value \<Rightarrow> string) \<Rightarrow> 'f json_value \<Rightarrow> string"
  where
  "convert_value Sprint_float json_Marshal (VString v) = v"
| "convert_value Sprint_float json_Marshal (VFloat64 v) = Sprint_float v"
| "convert_value Sprint_float json_Marshal (VBool v) = Sprint_bool v"
| "convert_value Sprint_float json_Marshal VNil = []"
| "convert_value Sprint_float json_Marshal (VSlice v) = json_Marshal (VSlice v)"
| "convert_value Sprint_float json_Marshal (VMap v) = json_Marshal (VMap v)"

text \<open>
  The provider holds the AWS client; \<open>GetSecretValue\<close> answers a secret id with an error
  or with the output's \<open>SecretString\<close> pointer (\<open>None\<close> when nil).
\<close>

record AWSSecretsManagerProvider =
  client :: "string \<Rightarrow> error + string option"

definition AWSSecretsManagerProvider_Name :: string where
  "AWSSecretsManagerProvider_Name = ''aws-secretsmanager''"

definition AWSSecretsManagerProvider_FetchSecret ::
  "(string \<Rightarrow> error + 'f json_value gomap) \<Rightarrow> ('f \<Rightarrow> string) \<Rightarrow> ('f json_value \<Rightarrow> string)
    \<Rightarrow> AWSSecretsManagerProvider \<Rightarrow> string \<Rightarrow> error + string gomap" where
  "AWSSecretsManagerProvider_FetchSecret json_Unmarshal Sprint_float json_Marshal p path =
    (case client p path of
       Inl err \<Rightarrow> Inl (Wrapf ''failed to fetch secret from AWS Secrets Manager'' err)
     | Inr None \<Rightarrow> Inl (Errorf (''secret '' @ path @ '' does not contain a string value''))
     | Inr (Some SecretString) \<Rightarrow>
         (case json_Unmarshal SecretString of
            Inl err \<Rightarrow> Inl (Wrapf ''failed to parse secret JSON'' err)
          | Inr rawData \<Rightarrow>
              Inr (fold (\<lambda>(key, v) secretData.
                           AList.update key (convert_value Sprint_float json_Marshal v) secretData)
                     rawData [])))"

text \<open>The provider as a \<open>SecretProvider\<close>.\<close>

definition AWSSecretsManagerProvider_interface ::
  "(string \<Rightarrow> error + 'f json_value gomap) \<Rightarrow> ('f \<Rightarrow> string) \<Rightarrow> ('f json_value \<Rightarrow> string)
    \<Rightarrow> AWSSecretsManagerProvider \<Rightarrow> SecretProvider" where
  "AWSSecretsManagerProvider_interface json_Unmarshal Sprint_float json_Marshal p =
    \<lparr>FetchSecret = AWSSecretsManagerProvider_FetchSecret json_Unmarshal Sprint_float json_Marshal p,
     Name = AWSSecretsManagerProvider_Name\<rparr>"

section \<open>Kubernetes objects\<close>

text \<open>
  The Kubernetes objects the engine reads and writes, with the fields it uses. Secret
  values are bytes; \<open>string\<close> is a list of bytes already.
\<close>

record Pod =
  Namespace :: string
  Name :: string
  UID :: string
  Annotations :: "string gomap"

record Secret =
  Name :: string
  Namespace :: string
  Labels :: "string gomap"
  Annotations :: "string gomap"
  Data :: "string gomap"
  StringData :: "string gomap"
  Type :: string

section \<open>internal/events: the notifications\<close>

text \<open>One \<open>recorder.Eventf\<close> call: the pod, the event type, the reason and the message.\<close>

record Event =
  InvolvedObject :: "string \<times> string"
  EventType :: string
  Reason :: string
  Message :: string

definition EventReasonSecretSyncSuccess :: string where
  "EventReasonSecretSyncSuccess = ''SecretSyncSuccess''"

definition EventReasonAnnotationInvalid :: string where
  "EventReasonAnnotationInvalid = ''AnnotationInvalid''"

definition EventReasonProviderUnsupported :: string where
  "EventReasonProviderUnsupported = ''ProviderUnsupported''"

definition EventReasonSecretFetchFailed :: string where
  "EventReasonSecretFetchFailed = ''SecretFetchFailed''"

definition Eventf :: "Pod \<Rightarrow> string \<Rightarrow> string \<Rightarrow> string \<Rightarrow> Event" where
  "Eventf pod eventtype reason message =
    \<lparr>InvolvedObject = (Pod.Namespace pod, Pod.Name pod), EventType = eventtype,
     Reason = reason, Message = message\<rparr>"

definition EmitSecretSyncSuccess :: "Pod \<Rightarrow> string \<Rightarrow> string \<Rightarrow> string \<Rightarrow> Event" where
  "EmitSecretSyncSuccess pod secretName provider path =
    Eventf pod ''Normal'' EventReasonSecretSyncSuccess
      (''Successfully synchronized secret '' @ [CHR 0x27] @ secretName @ [CHR 0x27]
        @ '' from '' @ provider @ '' (path: '' @ path @ '')'')"

definition EmitAnnotationInvalid :: "Pod \<Rightarrow> error \<Rightarrow> Event" where
  "EmitAnnotationInvalid pod err =
    Eventf pod ''Warning'' EventReasonAnnotationInvalid
      (''Invalid secret sync annotation: '' @ Error err)"

definition EmitSecretFetchFailed :: "Pod \<Rightarrow> string \<Rightarrow> string \<Rightarrow> error \<Rightarrow> Event" where
  "EmitSecretFetchFailed pod provider path err =
    Eventf pod ''Warning'' EventReasonSecretFetchFailed
      (''Failed to fetch secret from '' @ provider @ '' (path: '' @ path @ ''): '' @ Error err)"

definition EmitProviderNotFound :: "Pod \<Rightarrow> string \<Rightarrow> Event" where
  "EmitProviderNotFound pod provider =
    Eventf pod ''Warning'' EventReasonProviderUnsupported
      (''Provider '' @ [CHR 0x27] @ provider @ [CHR 0x27] @ '' not found in registry'')"

section \<open>The resource store and the client\<close>

text \<open>
  The state outside the engine: the pods and the secrets of the cluster, the events the
  recorder has received, and the create and update calls the engine has issued to the
  store, in order (a call is logged whether or not the store accepts it).
\<close>

datatype WriteCall = CreateCall Secret | UpdateCall Secret

record World =
  Pods :: "Pod list"
  Secrets :: "string \<times> string \<Rightarrow> Secret option"
  Events :: "Event list"
  Writes :: "WriteCall list"

text \<open>The name of the secret a logged call was issued for.\<close>

definition written_name :: "WriteCall \<Rightarrow> string" where
  "written_name call = (case call of CreateCall secret \<Rightarrow> Secret.Name secret
                                   | UpdateCall secret \<Rightarrow> Secret.Name secret)"

text \<open>The secret a logged call was issued with.\<close>

definition written_secret :: "WriteCall \<Rightarrow> Secret" where
  "written_secret call = (case call of CreateCall secret \<Rightarrow> secret | UpdateCall secret \<Rightarrow> secret)"

text \<open>
  What a run takes from outside: the YAML decoder, the time \<open>time.Now().UTC()\<close> in
  RFC 3339 form, and, for each call of the client, the error the API returns when the call
  fails for a reason of its own (connection, permission, conflict), \<open>None\<close> when it does not.
\<close>

record Env =
  yaml_Unmarshal :: "string \<Rightarrow> error + PodAnnotation"
  Now :: string
  GetPodErr :: "error option"
  GetSecretErr :: "error option"
  CreateErr :: "error option"
  UpdateErr :: "error option"
  ListErr :: "error option"

definition Get_Pod :: "Env \<Rightarrow> string \<times> string \<Rightarrow> World \<Rightarrow> error + Pod" where
  "Get_Pod env key w =
    (case GetPodErr env of
       Some err \<Rightarrow> Inl err
     | None \<Rightarrow>
         (case find (\<lambda>pod. (Pod.Namespace pod, Pod.Name pod) = key) (Pods w) of
            None \<Rightarrow> Inl (StatusError ''NotFound'')
          | Some pod \<Rightarrow> Inr pod))"

text \<open>
  \<open>Get\<close> of a secret fills the object it is given; on an error the object is left as it
  was.
\<close>

definition Get_Secret :: "Env \<Rightarrow> string \<times> string \<Rightarrow> Secret \<Rightarrow> World \<Rightarrow> error option \<times> Secret"
  where
  "Get_Secret env key secret w =
    (case GetSecretErr env of
       Some err \<Rightarrow> (Some err, secret)
     | None \<Rightarrow>
         (case Secrets w key of
            None \<Rightarrow> (Some (StatusError ''NotFound''), secret)
          | Some found \<Rightarrow> (None, found)))"

definition List_Pods :: "Env \<Rightarrow> string \<Rightarrow> World \<Rightarrow> error + Pod list" where
  "List_Pods env namespace w =
    (case ListErr env of
       Some err \<Rightarrow> Inl err
     | None \<Rightarrow> Inr (filter (\<lambda>pod. Pod.Namespace pod = namespace) (Pods w)))"

text \<open>
  The store's write contract for a Secret, as the Kubernetes API documents the
  \<open>stringData\<close> field of \<open>corev1.Secret\<close>: a write-only input whose keys and values are
  merged into \<open>data\<close> on write, overwriting the values of the keys it names; it is never
  stored or returned. The payload the store keeps is \<open>Data\<close>. What else the store does
  on a write (validating the object, versions and conflicts) is not modelled; a write it
  refuses is an error of the call, \<open>CreateErr\<close> or \<open>UpdateErr\<close>.
\<close>

definition stored :: "Secret \<Rightarrow> Secret" where
  "stored secret =
    secret\<lparr>Data := fold (\<lambda>(k, v) data. AList.update k v data)
                      (StringData secret) (Data secret),
           StringData := []\<rparr>"

definition ObjectKeyFromObject :: "Secret \<Rightarrow> string \<times> string" where
  "ObjectKeyFromObject secret = (Secret.Namespace secret, Secret.Name secret)"

definition Create :: "Env \<Rightarrow> Secret \<Rightarrow> World \<Rightarrow> error option \<times> World" where
  "Create env secret w =
    (let w' = w\<lparr>Writes := Writes w @ [CreateCall secret]\<rparr> in
     case CreateErr env of
       Some err \<Rightarrow> (Some err, w')
     | None \<Rightarrow>
         (case Secrets w (ObjectKeyFromObject secret) of
            Some existing \<Rightarrow> (Some (StatusError ''AlreadyExists''), w')
          | None \<Rightarrow>
              (None, w'\<lparr>Secrets := (Secrets w)(ObjectKeyFromObject secret \<mapsto> stored secret)\<rparr>)))"

definition Update :: "Env \<Rightarrow> Secret \<Rightarrow> World \<Rightarrow> error option \<times> World" where
  "Update env secret w =
    (let w' = w\<lparr>Writes := Writes w @ [UpdateCall secret]\<rparr> in
     case UpdateErr env of
       Some err \<Rightarrow> (Some err, w')
     | None \<Rightarrow>
         (case Secrets w (ObjectKeyFromObject secret) of
            None \<Rightarrow> (Some (StatusError ''NotFound''), w')
          | Some existing \<Rightarrow>
              (None, w'\<lparr>Secrets := (Secrets w)(ObjectKeyFromObject secret \<mapsto> stored secret)\<rparr>)))"

section \<open>internal/controller: the reconciler\<close>

definition ManagedByLabel :: string where
  "ManagedByLabel = ''app.kubernetes.io/managed-by''"

definition ManagedByValue :: string where
  "ManagedByValue = ''jasm''"

definition SourcePathAnnotation :: string where
  "SourcePathAnnotation = ''jasm.codnod.io/source-path''"

definition SyncedAtAnnotation :: string where
  "SyncedAtAnnotation = ''jasm.codnod.io/synced-at''"

definition SecretTypeOpaque :: string where
  "SecretTypeOpaque = ''Opaque''"

text \<open>\<open>ctrl.Result\<close>; the code sets \<open>Requeue\<close> only.\<close>

record Result =
  Requeue :: bool

text \<open>\<open>client.IgnoreNotFound\<close>.\<close>

definition IgnoreNotFound :: "error option \<Rightarrow> error option" where
  "IgnoreNotFound err = (if IsNotFound err then None else err)"

text \<open>
  The payload of the managed secret, \<open>secretStringData\<close> in \<open>Reconcile\<close>: with key
  mappings, one entry per mapping whose source key the fetched data has; without, a copy
  of the fetched data.
\<close>

definition secretStringData :: "string gomap \<Rightarrow> string gomap \<Rightarrow> string gomap" where
  "secretStringData keyMapping secretData =
    (if length keyMapping > 0 then
       fold (\<lambda>(kubernetesKey, awsSecretKey) acc.
               case map_of secretData awsSecretKey of
                 Some v \<Rightarrow> AList.update kubernetesKey v acc
               | None \<Rightarrow> acc)
         keyMapping []
     else
       fold (\<lambda>(k, v) acc. AList.update k v acc) secretData [])"

text \<open>
  The second half of \<open>Reconcile\<close>, from the lookup of the managed secret on: the secret
  read from the store (or the fresh one, when the store has none) gets the label, the two
  annotations, the payload as \<open>StringData\<close> and the type, and is updated or created.
\<close>

definition upsert ::
  "Env \<Rightarrow> Pod \<Rightarrow> SecretSyncRequest \<Rightarrow> string gomap \<Rightarrow> World
    \<Rightarrow> (Result \<times> error option) \<times> World" where
  "upsert env pod syncRequest secretData w =
    (let secret0 = \<lparr>Secret.Name = SecretSyncRequest.SecretName syncRequest,
                     Namespace = SecretSyncRequest.Namespace syncRequest,
                     Labels = [], Annotations = [], Data = [], StringData = [], Type = []\<rparr>;
         (err, secret1) = Get_Secret env (ObjectKeyFromObject secret0) secret0 w;
         secretExists = (\<not> IsNotFound err)
     in
       if err \<noteq> None \<and> \<not> IsNotFound err then ((\<lparr>Requeue = False\<rparr>, err), w)
       else
         (let secret2 = secret1
                \<lparr>Labels := AList.update ManagedByLabel ManagedByValue (Secret.Labels secret1),
                 Annotations :=
                   AList.update SyncedAtAnnotation (Now env)
                     (AList.update SourcePathAnnotation (SecretPath syncRequest)
                        (Secret.Annotations secret1)),
                 StringData := secretStringData (KeyMapping syncRequest) secretData,
                 Type := SecretTypeOpaque\<rparr>
          in case (if secretExists then Update env secret2 w else Create env secret2 w) of
               (Some err', w') \<Rightarrow> ((\<lparr>Requeue = False\<rparr>, Some err'), w')
             | (None, w') \<Rightarrow>
                 ((\<lparr>Requeue = False\<rparr>, None),
                  w'\<lparr>Events := Events w' @
                       [EmitSecretSyncSuccess pod (SecretSyncRequest.SecretName syncRequest)
                          (SecretSyncRequest.Provider syncRequest) (SecretPath syncRequest)]\<rparr>)))"

text \<open>
  \<open>Reconcile\<close>. The request is the pod's namespace and name; the result is the
  \<open>ctrl.Result\<close> and the error handed to the scheduler, with the state after the run.
\<close>

definition Reconcile ::
  "Env \<Rightarrow> ProviderRegistry \<Rightarrow> string \<times> string \<Rightarrow> World \<Rightarrow> (Result \<times> error option) \<times> World"
  where
  "Reconcile env registry req w =
    (case Get_Pod env req w of
       Inl err \<Rightarrow> ((\<lparr>Requeue = False\<rparr>, IgnoreNotFound (Some err)), w)
     | Inr pod \<Rightarrow>
         (case map_of (Pod.Annotations pod) AnnotationKey of
            None \<Rightarrow> ((\<lparr>Requeue = False\<rparr>, None), w)
          | Some annotationValue \<Rightarrow>
              (case ParseAnnotation (yaml_Unmarshal env) annotationValue
                      (Pod.Namespace pod) (Pod.Name pod) (UID pod) of
                 Inl err \<Rightarrow>
                   ((\<lparr>Requeue = False\<rparr>, None),
                    w\<lparr>Events := Events w @ [EmitAnnotationInvalid pod err]\<rparr>)
               | Inr syncRequest \<Rightarrow>
                   if SecretSyncRequest.Namespace syncRequest \<noteq> Pod.Namespace pod then
                     ((\<lparr>Requeue = False\<rparr>, None),
                      w\<lparr>Events := Events w @
                          [EmitAnnotationInvalid pod
                             (Errorf (''annotation namespace mismatch: annotation specifies ''
                                @ SecretSyncRequest.Namespace syncRequest
                                @ '' but pod is in '' @ Pod.Namespace pod))]\<rparr>)
                   else
                     (case Get registry (SecretSyncRequest.Provider syncRequest) of
                        None \<Rightarrow>
                          ((\<lparr>Requeue = False\<rparr>, None),
                           w\<lparr>Events := Events w @
                               [EmitProviderNotFound pod
                                  (SecretSyncRequest.Provider syncRequest)]\<rparr>)
                      | Some secretProvider \<Rightarrow>
                          (case FetchSecret secretProvider (SecretPath syncRequest) of
                             Inl err \<Rightarrow>
                               ((\<lparr>Requeue = True\<rparr>, Some err),
                                w\<lparr>Events := Events w @
                                    [EmitSecretFetchFailed pod
                                       (SecretSyncRequest.Provider syncRequest)
                                       (SecretPath syncRequest) err]\<rparr>)
                           | Inr secretData \<Rightarrow> upsert env pod syncRequest secretData w)))))"

text \<open>
  \<open>findPodsForSecret\<close>: the requests enqueued for a changed or deleted secret. The loop
  over the listed pods is \<open>findPods_loop\<close>, with the requests collected so far.
\<close>

fun findPods_loop ::
  "(string \<Rightarrow> error + PodAnnotation) \<Rightarrow> string \<Rightarrow> Pod list \<Rightarrow> (string \<times> string) list
    \<Rightarrow> (string \<times> string) list" where
  "findPods_loop unmarshal secretName [] requests = requests"
| "findPods_loop unmarshal secretName (pod # items) requests =
    (case map_of (Pod.Annotations pod) AnnotationKey of
       None \<Rightarrow> findPods_loop unmarshal secretName items requests
     | Some present \<Rightarrow>
         (case ParseAnnotation unmarshal (index (Pod.Annotations pod) AnnotationKey)
                 (Pod.Namespace pod) (Pod.Name pod) (UID pod) of
            Inl err \<Rightarrow> findPods_loop unmarshal secretName items requests
          | Inr syncRequest \<Rightarrow>
              if SecretSyncRequest.SecretName syncRequest = secretName then
                findPods_loop unmarshal secretName items
                  (requests @ [(Pod.Namespace pod, Pod.Name pod)])
              else findPods_loop unmarshal secretName items requests))"

definition findPodsForSecret :: "Env \<Rightarrow> World \<Rightarrow> Secret \<Rightarrow> (string \<times> string) list" where
  "findPodsForSecret env w secret =
    (if index (Secret.Labels secret) ManagedByLabel \<noteq> ManagedByValue then []
     else
       case List_Pods env (Secret.Namespace secret) w of
         Inl err \<Rightarrow> []
       | Inr podList \<Rightarrow> findPods_loop (yaml_Unmarshal env) (Secret.Name secret) podList [])"

section \<open>The resource-name rule\<close>

text \<open>
  The rule that the TODO in \<open>ParseAnnotation\<close> names and the parser does not apply: a
  DNS-1123 label, as \<open>validation.IsDNS1123Label\<close> of the Kubernetes library checks it. At
  most 63 characters, each a lower-case letter, a digit or \<open>-\<close>, the first and the last
  a letter or a digit.
\<close>

definition lower_alnum :: "char \<Rightarrow> bool" where
  "lower_alnum c = (c \<in> set ''abcdefghijklmnopqrstuvwxyz0123456789'')"

definition IsDNS1123Label :: "string \<Rightarrow> bool" where
  "IsDNS1123Label v =
    (v \<noteq> [] \<and> length v \<le> 63 \<and> list_all (\<lambda>c. lower_alnum c \<or> c = CHR ''-'') v
     \<and> lower_alnum (hd v) \<and> lower_alnum (last v))"

section \<open>Example inputs\<close>

text \<open>
  Concrete inputs for the scenarios below. The library functions are given by their
  values at the texts used: \<open>example_yaml_Unmarshal\<close> is \<open>yaml.Unmarshal\<close> into a
  \<open>PodAnnotation\<close> at seven annotation texts (flow-style YAML mappings) and fails on
  every other text, such as \<open>{invalid\<close> (with an error that stands for the decoder's
  syntax error). The decoder fills the four fields the struct
  declares (\<open>provider\<close>, \<open>path\<close>, \<open>secretName\<close>, \<open>keys\<close>), leaves a field the text does
  not give at its zero value, and skips a key the struct has no field for, such as
  \<open>namespace\<close>.
\<close>

definition annotation_plain :: string where
  "annotation_plain =
    ''{provider: aws-secretsmanager, path: /prod/myapp/database, secretName: db-credentials}''"

definition annotation_with_keys :: string where
  "annotation_with_keys =
    ''{provider: aws-secretsmanager, path: /prod/myapp/database, secretName: db-credentials, ''
    @ ''keys: {database: DB_HOST, password: DB_PASSWORD}}''"

definition annotation_no_provider :: string where
  "annotation_no_provider = ''{path: /test, secretName: test}''"

definition annotation_other_namespace :: string where
  "annotation_other_namespace =
    ''{provider: aws-secretsmanager, path: /prod/myapp/database, secretName: db-credentials, ''
    @ ''namespace: other}''"

definition annotation_bad_name :: string where
  "annotation_bad_name =
    ''{provider: aws-secretsmanager, path: /prod/myapp/database, secretName: DB_Credentials!}''"

definition annotation_vault :: string where
  "annotation_vault = ''{provider: vault, path: secret/data/api-keys, secretName: api-keys}''"

definition annotation_missing_path :: string where
  "annotation_missing_path =
    ''{provider: aws-secretsmanager, path: /prod/missing, secretName: db-credentials}''"

definition example_yaml_Unmarshal :: "string \<Rightarrow> error + PodAnnotation" where
  "example_yaml_Unmarshal text =
    (if text = annotation_plain \<or> text = annotation_other_namespace then
       Inr \<lparr>PodAnnotation.Provider = ''aws-secretsmanager'', Path = ''/prod/myapp/database'',
            SecretName = ''db-credentials'', Keys = []\<rparr>
     else if text = annotation_with_keys then
       Inr \<lparr>PodAnnotation.Provider = ''aws-secretsmanager'', Path = ''/prod/myapp/database'',
            SecretName = ''db-credentials'',
            Keys = [(''database'', ''DB_HOST''), (''password'', ''DB_PASSWORD'')]\<rparr>
     else if text = annotation_no_provider then
       Inr \<lparr>PodAnnotation.Provider = [], Path = ''/test'', SecretName = ''test'', Keys = []\<rparr>
     else if text = annotation_bad_name then
       Inr \<lparr>PodAnnotation.Provider = ''aws-secretsmanager'', Path = ''/prod/myapp/database'',
            SecretName = ''DB_Credentials!'', Keys = []\<rparr>
     else if text = annotation_vault then
       Inr \<lparr>PodAnnotation.Provider = ''vault'', Path = ''secret/data/api-keys'',
            SecretName = ''api-keys'', Keys = []\<rparr>
     else if text = annotation_missing_path then
       Inr \<lparr>PodAnnotation.Provider = ''aws-secretsmanager'', Path = ''/prod/missing'',
            SecretName = ''db-credentials'', Keys = []\<rparr>
     else Inl (LibError ''yaml: syntax error''))"

text \<open>
  The external source holds two secrets, JSON objects: at \<open>/prod/myapp/database\<close> the
  two string values \<open>DB_HOST\<close> and \<open>DB_PASSWORD\<close>, at \<open>/prod/myapp/mixed\<close> a string, a
  number, a boolean, a null and an array. Any other path is answered with the SDK's
  not-found error. \<open>example_json_Unmarshal\<close>, \<open>example_Sprint_float\<close> and
  \<open>example_json_Marshal\<close> are \<open>json.Unmarshal\<close>, \<open>fmt.Sprintf("%v", v)\<close> and
  \<open>json.Marshal\<close> at the values used here; the numbers 3306 and 5432 stand for the
  \<open>float64\<close> values of the same magnitude.
\<close>

definition example_SecretString :: string where
  \<open>example_SecretString = ''{"DB_HOST":"h","DB_PASSWORD":"p"}''\<close>

definition example_mixed_SecretString :: string where
  \<open>example_mixed_SecretString =
    ''{"username":"admin","port":3306,"ssl":true,"timeout":null,"ports":[5432,3306]}''\<close>

definition example_client :: "string \<Rightarrow> error + string option" where
  "example_client path =
    (if path = ''/prod/myapp/database'' then Inr (Some example_SecretString)
     else if path = ''/prod/myapp/mixed'' then Inr (Some example_mixed_SecretString)
     else Inl (LibError ''ResourceNotFoundException''))"

definition example_mixed :: "nat json_value gomap" where
  "example_mixed =
    [(''username'', VString ''admin''), (''port'', VFloat64 3306), (''ssl'', VBool True),
     (''timeout'', VNil), (''ports'', VSlice [VFloat64 5432, VFloat64 3306])]"

definition example_json_Unmarshal :: "string \<Rightarrow> error + nat json_value gomap" where
  "example_json_Unmarshal text =
    (if text = example_SecretString then
       Inr [(''DB_HOST'', VString ''h''), (''DB_PASSWORD'', VString ''p'')]
     else if text = example_mixed_SecretString then Inr example_mixed
     else Inl (LibError ''invalid character''))"

definition example_Sprint_float :: "nat \<Rightarrow> string" where
  "example_Sprint_float v = (if v = 3306 then ''3306'' else if v = 5432 then ''5432'' else [])"

definition example_json_Marshal :: "nat json_value \<Rightarrow> string" where
  "example_json_Marshal v =
    (if v = VSlice [VFloat64 5432, VFloat64 3306] then ''[5432,3306]'' else [])"

definition example_provider :: AWSSecretsManagerProvider where
  "example_provider = \<lparr>client = example_client\<rparr>"

definition example_registry :: ProviderRegistry where
  "example_registry =
    Register NewProviderRegistry
      (AWSSecretsManagerProvider_interface example_json_Unmarshal example_Sprint_float
         example_json_Marshal example_provider)"

definition example_env :: Env where
  "example_env =
    \<lparr>yaml_Unmarshal = example_yaml_Unmarshal, Now = ''2025-10-24T12:00:00Z'',
     GetPodErr = None, GetSecretErr = None, CreateErr = None, UpdateErr = None,
     ListErr = None\<rparr>"

definition example_pod :: "string \<Rightarrow> string \<Rightarrow> string \<Rightarrow> Pod" where
  "example_pod namespace name annotation =
    \<lparr>Pod.Namespace = namespace, Name = name, UID = ''uid-123'',
     Annotations = [(AnnotationKey, annotation)]\<rparr>"

text \<open>
  A cluster with five pods, of which one in the namespace \<open>default\<close> asks for the secret
  \<open>db-credentials\<close>; a stored secret of that name whose payload has the one key
  \<open>stale\<close>; and the state with one pod \<open>default/web\<close> and at most one secret, on which
  \<open>run_example\<close> runs one reconciliation of that pod.
\<close>

definition example_cluster :: World where
  "example_cluster =
    \<lparr>Pods = [example_pod ''default'' ''web'' annotation_plain,
             \<lparr>Pod.Namespace = ''default'', Name = ''plain'', UID = ''uid-456'', Annotations = []\<rparr>,
             example_pod ''default'' ''api'' annotation_vault,
             example_pod ''prod'' ''web'' annotation_plain,
             example_pod ''default'' ''broken'' ''{invalid''],
     Secrets = Map.empty, Events = [], Writes = []\<rparr>"

definition example_secret :: "string gomap \<Rightarrow> Secret" where
  "example_secret labels =
    \<lparr>Secret.Name = ''db-credentials'', Namespace = ''default'', Labels = labels,
     Annotations = [], Data = [(''stale'', ''old'')], StringData = [], Type = ''Opaque''\<rparr>"

definition world_with :: "Pod \<Rightarrow> Secret option \<Rightarrow> World" where
  "world_with pod secret =
    \<lparr>Pods = [pod],
     Secrets = (case secret of None \<Rightarrow> Map.empty
                | Some s \<Rightarrow> [ObjectKeyFromObject s \<mapsto> s]),
     Events = [], Writes = []\<rparr>"

definition run_example :: "string \<Rightarrow> Secret option \<Rightarrow> (Result \<times> error option) \<times> World" where
  "run_example annotation secret =
    Reconcile example_env example_registry (''default'', ''web'')
      (world_with (example_pod ''default'' ''web'' annotation) secret)"

text \<open>The example environment with a \<open>List\<close> call that fails.\<close>

definition failing_list_env :: Env where
  "failing_list_env = example_env\<lparr>ListErr := Some (StatusError ''ServiceUnavailable'')\<rparr>"

section \<open>Unfolding the definitions\<close>

text \<open>
  The defining equations, collected for evaluating the code on the example inputs.
\<close>

lemmas example_defs =
  example_env_def example_registry_def example_provider_def example_client_def
  example_json_Unmarshal_def example_Sprint_float_def example_json_Marshal_def
  example_yaml_Unmarshal_def example_pod_def
  example_SecretString_def example_mixed_SecretString_def example_mixed_def
  annotation_plain_def annotation_with_keys_def annotation_no_provider_def
  annotation_other_namespace_def annotation_bad_name_def annotation_vault_def
  annotation_missing_path_def world_with_def run_example_def

lemmas code_defs =
  Reconcile_def upsert_def Get_Pod_def Get_Secret_def Create_def Update_def stored_def
  ObjectKeyFromObject_def secretStringData_def ParseAnnotation_def Get_def Register_def
  NewProviderRegistry_def AWSSecretsManagerProvider_interface_def
  AWSSecretsManagerProvider_FetchSecret_def AWSSecretsManagerProvider_Name_def
  IsNotFound_def IgnoreNotFound_def AnnotationKey_def ManagedByLabel_def ManagedByValue_def
  SourcePathAnnotation_def SyncedAtAnnotation_def SecretTypeOpaque_def
  EmitSecretSyncSuccess_def EmitAnnotationInvalid_def EmitSecretFetchFailed_def
  EmitProviderNotFound_def Eventf_def EventReasonSecretSyncSuccess_def
  EventReasonAnnotationInvalid_def EventReasonProviderUnsupported_def
  EventReasonSecretFetchFailed_def index_def findPodsForSecret_def List_Pods_def
  Sprint_bool_def

section \<open>Writing into a Go map in a loop\<close>

text \<open>
  A loop that stores one entry per entry of a map with distinct keys builds a map that can
  be read key by key.
\<close>

lemma map_of_fold_update:
  "distinct (map fst xs) \<Longrightarrow>
   map_of (fold (\<lambda>(k, v) acc. AList.update k v acc) xs acc) k =
     (case map_of xs k of None \<Rightarrow> map_of acc k | Some v \<Rightarrow> Some v)"
proof (induction xs arbitrary: acc)
  case Nil
  then show ?case by simp
next
  case (Cons x xs)
  obtain k' v' where x: "x = (k', v')" by (cases x)
  from Cons.prems have d: "distinct (map fst xs)" and nk: "k' \<notin> fst ` set xs"
    by (auto simp: x)
  have none: "map_of xs k' = None" using nk by (simp add: map_of_eq_None_iff)
  show ?case using Cons.IH [OF d, of "AList.update k' v' acc"] none
    by (auto simp: x update_conv' split: option.splits)
qed

lemma distinct_fold_update:
  "distinct (map fst acc) \<Longrightarrow>
   distinct (map fst (fold (\<lambda>(k, v) acc. AList.update k (f v) acc) xs acc))"
  by (induction xs arbitrary: acc) (auto simp: distinct_update)

lemma map_of_fold_convert:
  "distinct (map fst xs) \<Longrightarrow>
   map_of (fold (\<lambda>(k, v) acc. AList.update k (f v) acc) xs acc) k =
     (case map_of xs k of None \<Rightarrow> map_of acc k | Some v \<Rightarrow> Some (f v))"
proof (induction xs arbitrary: acc)
  case Nil
  then show ?case by simp
next
  case (Cons x xs)
  obtain k' v' where x: "x = (k', v')" by (cases x)
  from Cons.prems have d: "distinct (map fst xs)" and nk: "k' \<notin> fst ` set xs"
    by (auto simp: x)
  have none: "map_of xs k' = None" using nk by (simp add: map_of_eq_None_iff)
  show ?case using Cons.IH [OF d, of "AList.update k' (f v') acc"] none
    by (auto simp: x update_conv' split: option.splits)
qed

lemma map_of_fold_mapping:
  "distinct (map fst km) \<Longrightarrow>
   map_of (fold (\<lambda>(tk, sk) acc. case m sk of Some v \<Rightarrow> AList.update tk v acc | None \<Rightarrow> acc)
             km acc) k =
     (case map_of km k of
        None \<Rightarrow> map_of acc k
      | Some sk \<Rightarrow> (case m sk of None \<Rightarrow> map_of acc k | Some v \<Rightarrow> Some v))"
proof (induction km arbitrary: acc)
  case Nil
  then show ?case by simp
next
  case (Cons x km)
  obtain tk sk where x: "x = (tk, sk)" by (cases x)
  from Cons.prems have d: "distinct (map fst km)" and nk: "tk \<notin> fst ` set km"
    by (auto simp: x)
  have none: "map_of km tk = None" using nk by (simp add: map_of_eq_None_iff)
  show ?case
  proof (cases "m sk")
    case None
    then show ?thesis using Cons.IH [OF d, of acc] none
      by (auto simp: x split: option.splits)
  next
    case (Some v)
    then show ?thesis using Cons.IH [OF d, of "AList.update tk v acc"] none
      by (auto simp: x update_conv' split: option.splits)
  qed
qed

lemma distinct_fold_mapping:
  "distinct (map fst acc) \<Longrightarrow>
   distinct (map fst (fold (\<lambda>(tk, sk) acc. case m sk of Some v \<Rightarrow> AList.update tk v acc | None \<Rightarrow> acc)
             km acc))"
  by (induction km arbitrary: acc) (auto simp: distinct_update split: option.splits)

section \<open>The parser's contract\<close>

text \<open>
  C4. An empty annotation text fails with the empty-payload error. A text that decodes to
  a payload whose provider, path or secretName is absent or empty fails with the
  missing-field error whose message names the field: the first empty one in the order
  provider, path, secretName. A text that decodes to a payload with all three fields
  non-empty parses, and the request carries the payload's fields and its key mapping
  unchanged.
\<close>

theorem ParseAnnotation_contract:
  "ParseAnnotation unmarshal [] namespace podName podUID =
      Inl (Errorf ''annotation value is empty'')
   \<and> (annotationValue \<noteq> [] \<and> unmarshal annotationValue = Inr podAnnotation \<longrightarrow>
        (PodAnnotation.Provider podAnnotation = [] \<longrightarrow>
           ParseAnnotation unmarshal annotationValue namespace podName podUID
             = Inl (Errorf ''provider field is required''))
      \<and> (PodAnnotation.Provider podAnnotation \<noteq> [] \<and> Path podAnnotation = [] \<longrightarrow>
           ParseAnnotation unmarshal annotationValue namespace podName podUID
             = Inl (Errorf ''path field is required''))
      \<and> (PodAnnotation.Provider podAnnotation \<noteq> [] \<and> Path podAnnotation \<noteq> []
           \<and> PodAnnotation.SecretName podAnnotation = [] \<longrightarrow>
           ParseAnnotation unmarshal annotationValue namespace podName podUID
             = Inl (Errorf ''secretName field is required''))
      \<and> (PodAnnotation.Provider podAnnotation \<noteq> [] \<and> Path podAnnotation \<noteq> []
           \<and> PodAnnotation.SecretName podAnnotation \<noteq> [] \<longrightarrow>
           ParseAnnotation unmarshal annotationValue namespace podName podUID
             = Inr \<lparr>SecretSyncRequest.Provider = PodAnnotation.Provider podAnnotation,
                    SecretPath = Path podAnnotation,
                    SecretName = PodAnnotation.SecretName podAnnotation,
                    Namespace = namespace, PodName = podName, PodUID = podUID,
                    KeyMapping = Keys podAnnotation\<rparr>))"
  by (simp add: ParseAnnotation_def)

text \<open>
  The contract at two annotation texts: one without a provider, one with a key mapping.
\<close>

theorem ParseAnnotation_contract_witness:
  "annotation_no_provider \<noteq> []
   \<and> example_yaml_Unmarshal annotation_no_provider
       = Inr \<lparr>PodAnnotation.Provider = [], Path = ''/test'', SecretName = ''test'', Keys = []\<rparr>
   \<and> ParseAnnotation example_yaml_Unmarshal annotation_no_provider ''default'' ''test-pod''
         ''uid-123'' = Inl (Errorf ''provider field is required'')
   \<and> annotation_with_keys \<noteq> []
   \<and> example_yaml_Unmarshal annotation_with_keys
       = Inr \<lparr>PodAnnotation.Provider = ''aws-secretsmanager'', Path = ''/prod/myapp/database'',
              SecretName = ''db-credentials'',
              Keys = [(''database'', ''DB_HOST''), (''password'', ''DB_PASSWORD'')]\<rparr>
   \<and> ParseAnnotation example_yaml_Unmarshal annotation_with_keys ''default'' ''test-pod''
         ''uid-123''
       = Inr \<lparr>SecretSyncRequest.Provider = ''aws-secretsmanager'',
              SecretPath = ''/prod/myapp/database'', SecretName = ''db-credentials'',
              Namespace = ''default'', PodName = ''test-pod'', PodUID = ''uid-123'',
              KeyMapping = [(''database'', ''DB_HOST''), (''password'', ''DB_PASSWORD'')]\<rparr>"
proof -
  have t1: "annotation_no_provider \<noteq> []" by (simp add: annotation_no_provider_def)
  have u1: "example_yaml_Unmarshal annotation_no_provider
       = Inr \<lparr>PodAnnotation.Provider = [], Path = ''/test'', SecretName = ''test'', Keys = []\<rparr>"
    by (simp add: example_yaml_Unmarshal_def annotation_no_provider_def annotation_plain_def
        annotation_other_namespace_def annotation_with_keys_def)
  have t2: "annotation_with_keys \<noteq> []" by (simp add: annotation_with_keys_def)
  have u2: "example_yaml_Unmarshal annotation_with_keys
       = Inr \<lparr>PodAnnotation.Provider = ''aws-secretsmanager'', Path = ''/prod/myapp/database'',
              SecretName = ''db-credentials'',
              Keys = [(''database'', ''DB_HOST''), (''password'', ''DB_PASSWORD'')]\<rparr>"
    by (simp add: example_yaml_Unmarshal_def annotation_plain_def
        annotation_other_namespace_def annotation_with_keys_def)
  show ?thesis
    using t1 u1 t2 u2
      ParseAnnotation_contract [of example_yaml_Unmarshal "''default''" "''test-pod''"
        "''uid-123''" annotation_no_provider
        "\<lparr>PodAnnotation.Provider = [], Path = ''/test'', SecretName = ''test'', Keys = []\<rparr>"]
      ParseAnnotation_contract [of example_yaml_Unmarshal "''default''" "''test-pod''"
        "''uid-123''" annotation_with_keys
        "\<lparr>PodAnnotation.Provider = ''aws-secretsmanager'', Path = ''/prod/myapp/database'',
          SecretName = ''db-credentials'',
          Keys = [(''database'', ''DB_HOST''), (''password'', ''DB_PASSWORD'')]\<rparr>"]
    by simp
qed

text \<open>
  C9. The parser does not check the secret name against the resource-name rule: the
  annotation text with \<open>secretName: DB_Credentials!\<close> parses, the request carries that
  name although it is no DNS-1123 label (upper-case letters, \<open>_\<close> and \<open>!\<close>), and the
  reconciliation, instead of ending with \<open>AnnotationInvalid\<close>, goes on to issue the create
  call for a secret of that name.
\<close>

theorem invalid_secret_name_is_returned:
  "ParseAnnotation example_yaml_Unmarshal annotation_bad_name ''default'' ''web'' ''uid-123''
     = Inr \<lparr>SecretSyncRequest.Provider = ''aws-secretsmanager'',
            SecretPath = ''/prod/myapp/database'', SecretName = ''DB_Credentials!'',
            Namespace = ''default'', PodName = ''web'', PodUID = ''uid-123'',
            KeyMapping = []\<rparr>
   \<and> \<not> IsDNS1123Label ''DB_Credentials!''
   \<and> map written_name (Writes (snd (run_example annotation_bad_name None)))
     = [''DB_Credentials!'']"
  by (simp add: example_defs code_defs IsDNS1123Label_def lower_alnum_def written_name_def)

section \<open>The merge step\<close>

text \<open>
  C3. For a key mapping and fetched data that are Go maps (distinct keys): when the key
  mapping is not empty, the keys of the merged payload are exactly the target keys whose
  source key is a key of the fetched data, each such target key carries the fetched value
  of its source key, and a target key whose source key is absent has no entry (it is not
  set to the empty string); when the key mapping is empty, the merged payload has the
  keys and the values of the fetched data. The merged payload is a Go map again.
\<close>

theorem secretStringData_merge:
  assumes "distinct (map fst keyMapping)" and "distinct (map fst secretData)"
  shows "(keyMapping \<noteq> [] \<longrightarrow>
            fst ` set (secretStringData keyMapping secretData) =
              {targetKey. \<exists>sourceKey. (targetKey, sourceKey) \<in> set keyMapping
                            \<and> sourceKey \<in> fst ` set secretData}
          \<and> (\<forall>targetKey sourceKey. (targetKey, sourceKey) \<in> set keyMapping
                 \<and> sourceKey \<in> fst ` set secretData \<longrightarrow>
               map_of (secretStringData keyMapping secretData) targetKey
                 = map_of secretData sourceKey)
          \<and> (\<forall>targetKey sourceKey. (targetKey, sourceKey) \<in> set keyMapping
                 \<and> sourceKey \<notin> fst ` set secretData \<longrightarrow>
               map_of (secretStringData keyMapping secretData) targetKey = None))
       \<and> (keyMapping = [] \<longrightarrow>
            fst ` set (secretStringData keyMapping secretData) = fst ` set secretData
          \<and> map_of (secretStringData keyMapping secretData) = map_of secretData)
       \<and> distinct (map fst (secretStringData keyMapping secretData))"
proof -
  let ?r = "secretStringData keyMapping secretData"
  have mapped: "map_of ?r k =
      (case map_of keyMapping k of None \<Rightarrow> None | Some sk \<Rightarrow> map_of secretData sk)"
    if "keyMapping \<noteq> []" for k
    using that map_of_fold_mapping [OF assms(1), of "map_of secretData" "[]" k]
    by (auto simp: secretStringData_def split: option.splits)
  have copied: "map_of ?r k = map_of secretData k" if "keyMapping = []" for k
    using that map_of_fold_update [OF assms(2), of "[]" k]
    by (auto simp: secretStringData_def split: option.splits)
  have dist: "distinct (map fst ?r)"
    using distinct_fold_mapping [of "[]" "map_of secretData" keyMapping]
      distinct_fold_update [of "[]" "\<lambda>v. v" secretData]
    by (simp add: secretStringData_def)
  have km: "map_of keyMapping tk = Some sk \<longleftrightarrow> (tk, sk) \<in> set keyMapping" for tk sk
    using assms(1) by (auto dest: map_of_SomeD)
  have dom_r: "fst ` set ?r = dom (map_of ?r)"
    by (simp add: dom_map_of_conv_image_fst)
  have dom_d: "fst ` set secretData = dom (map_of secretData)"
    by (simp add: dom_map_of_conv_image_fst)
  have keys: "fst ` set ?r =
      {tk. \<exists>sk. (tk, sk) \<in> set keyMapping \<and> sk \<in> fst ` set secretData}"
    if ne: "keyMapping \<noteq> []"
  proof -
    have "tk \<in> dom (map_of ?r) \<longleftrightarrow>
        (\<exists>sk. (tk, sk) \<in> set keyMapping \<and> sk \<in> dom (map_of secretData))" for tk
    proof (cases "map_of keyMapping tk")
      case None
      then have "\<And>sk. (tk, sk) \<notin> set keyMapping" using km [of tk] by simp
      then show ?thesis using mapped [OF ne, of tk] None by (simp add: dom_def)
    next
      case (Some sk)
      have "(tk, sk') \<in> set keyMapping \<longleftrightarrow> sk' = sk" for sk'
        using km [of tk sk'] Some by auto
      then show ?thesis using mapped [OF ne, of tk] Some by (simp add: dom_def)
    qed
    then have "dom (map_of ?r) =
        {tk. \<exists>sk. (tk, sk) \<in> set keyMapping \<and> sk \<in> dom (map_of secretData)}"
      by (intro set_eqI) simp
    then show ?thesis by (simp only: dom_r dom_d)
  qed
  have present: "map_of ?r tk = map_of secretData sk"
    if "keyMapping \<noteq> []" "(tk, sk) \<in> set keyMapping" for tk sk
    using mapped [OF that(1), of tk] km [of tk sk] that(2) by simp
  have absent: "map_of ?r tk = None"
    if "keyMapping \<noteq> []" "(tk, sk) \<in> set keyMapping" "sk \<notin> fst ` set secretData" for tk sk
    using present [OF that(1,2)] that(3) by (simp add: map_of_eq_None_iff)
  have keys_copy: "fst ` set ?r = fst ` set secretData" if "keyMapping = []"
  proof -
    have "dom (map_of ?r) = dom (map_of secretData)"
      using copied [OF that] by (simp add: dom_def)
    then show ?thesis by (simp only: dom_r dom_d)
  qed
  have copy: "map_of ?r = map_of secretData" if "keyMapping = []"
    using copied [OF that] by (intro ext)
  show ?thesis
  proof (intro conjI impI allI)
    assume "keyMapping \<noteq> []"
    then show "fst ` set ?r =
      {targetKey. \<exists>sourceKey. (targetKey, sourceKey) \<in> set keyMapping
          \<and> sourceKey \<in> fst ` set secretData}"
      by (rule keys)
  next
    fix targetKey sourceKey
    assume "keyMapping \<noteq> []"
      and "(targetKey, sourceKey) \<in> set keyMapping \<and> sourceKey \<in> fst ` set secretData"
    then show "map_of ?r targetKey = map_of secretData sourceKey"
      using present by blast
  next
    fix targetKey sourceKey
    assume "keyMapping \<noteq> []"
      and "(targetKey, sourceKey) \<in> set keyMapping \<and> sourceKey \<notin> fst ` set secretData"
    then show "map_of ?r targetKey = None"
      using absent by blast
  next
    assume "keyMapping = []"
    then show "fst ` set ?r = fst ` set secretData" by (rule keys_copy)
  next
    assume "keyMapping = []"
    then show "map_of ?r = map_of secretData" by (rule copy)
  next
    show "distinct (map fst ?r)" by (rule dist)
  qed
qed

text \<open>
  The merge at the key mapping \<open>database, password, username\<close> over fetched data that has
  no \<open>DB_USER\<close>, and at the empty key mapping.
\<close>

theorem secretStringData_merge_witness:
  "distinct (map fst [(''database'', ''DB_HOST''), (''password'', ''DB_PASSWORD''),
                      (''username'', ''DB_USER'')])
   \<and> distinct (map fst [(''DB_HOST'', ''h''), (''DB_PASSWORD'', ''p'')])
   \<and> fst ` set (secretStringData
         [(''database'', ''DB_HOST''), (''password'', ''DB_PASSWORD''), (''username'', ''DB_USER'')]
         [(''DB_HOST'', ''h''), (''DB_PASSWORD'', ''p'')]) = {''database'', ''password''}
   \<and> map_of (secretStringData
         [(''database'', ''DB_HOST''), (''password'', ''DB_PASSWORD''), (''username'', ''DB_USER'')]
         [(''DB_HOST'', ''h''), (''DB_PASSWORD'', ''p'')]) ''password'' = Some ''p''
   \<and> map_of (secretStringData
         [(''database'', ''DB_HOST''), (''password'', ''DB_PASSWORD''), (''username'', ''DB_USER'')]
         [(''DB_HOST'', ''h''), (''DB_PASSWORD'', ''p'')]) ''username'' = None
   \<and> map_of (secretStringData [] [(''DB_HOST'', ''h''), (''DB_PASSWORD'', ''p'')])
        = map_of [(''DB_HOST'', ''h''), (''DB_PASSWORD'', ''p'')]"
  using secretStringData_merge
      [of "[(''database'', ''DB_HOST''), (''password'', ''DB_PASSWORD''), (''username'', ''DB_USER'')]"
          "[(''DB_HOST'', ''h''), (''DB_PASSWORD'', ''p'')]"]
    secretStringData_merge [of "[]" "[(''DB_HOST'', ''h''), (''DB_PASSWORD'', ''p'')]"]
  by (simp add: secretStringData_def)

section \<open>The AWS provider's conversion\<close>

text \<open>
  What \<open>FetchSecret\<close> returns when the source answers with a string that decodes to the
  JSON object \<open>rawData\<close>: a map that has, under each key, the converted value.
\<close>

lemma FetchSecret_result:
  assumes "client p path = Inr (Some SecretString)"
    and "json_Unmarshal SecretString = Inr rawData"
    and "distinct (map fst rawData)"
  shows "\<exists>secretData.
      AWSSecretsManagerProvider_FetchSecret json_Unmarshal Sprint_float json_Marshal p path
        = Inr secretData
      \<and> distinct (map fst secretData)
      \<and> (\<forall>key. map_of secretData key =
            map_option (convert_value Sprint_float json_Marshal) (map_of rawData key))"
proof -
  let ?secretData = "fold (\<lambda>(key, v) secretData.
      AList.update key (convert_value Sprint_float json_Marshal v) secretData) rawData []"
  have "AWSSecretsManagerProvider_FetchSecret json_Unmarshal Sprint_float json_Marshal p path
      = Inr ?secretData"
    using assms(1,2) by (simp add: AWSSecretsManagerProvider_FetchSecret_def)
  moreover have "distinct (map fst ?secretData)"
    using distinct_fold_update [of "[]" "convert_value Sprint_float json_Marshal" rawData]
    by simp
  moreover have "map_of ?secretData key =
      map_option (convert_value Sprint_float json_Marshal) (map_of rawData key)" for key
    using map_of_fold_convert [OF assms(3), of "convert_value Sprint_float json_Marshal" "[]" key]
    by (simp split: option.splits)
  ultimately show ?thesis by blast
qed

text \<open>
  C8. For every JSON object the source returns, the fetch succeeds and its result has
  exactly the object's keys; a string value is passed through unchanged, a number is
  printed by \<open>%v\<close>, a boolean becomes \<open>true\<close> or \<open>false\<close>, and an array or an object
  becomes the text \<open>json.Marshal\<close> gives for it. No key is dropped.
\<close>

theorem FetchSecret_converts_every_key:
  assumes "client p path = Inr (Some SecretString)"
    and "json_Unmarshal SecretString = Inr rawData"
    and "distinct (map fst rawData)"
  shows "\<exists>secretData.
      AWSSecretsManagerProvider_FetchSecret json_Unmarshal Sprint_float json_Marshal p path
        = Inr secretData
      \<and> fst ` set secretData = fst ` set rawData
      \<and> distinct (map fst secretData)
      \<and> (\<forall>key v. (key, VString v) \<in> set rawData \<longrightarrow> map_of secretData key = Some v)
      \<and> (\<forall>key v. (key, VFloat64 v) \<in> set rawData \<longrightarrow>
            map_of secretData key = Some (Sprint_float v))
      \<and> (\<forall>key v. (key, VBool v) \<in> set rawData \<longrightarrow>
            map_of secretData key = Some (if v then ''true'' else ''false''))
      \<and> (\<forall>key v. (key, VSlice v) \<in> set rawData \<longrightarrow>
            map_of secretData key = Some (json_Marshal (VSlice v)))
      \<and> (\<forall>key v. (key, VMap v) \<in> set rawData \<longrightarrow>
            map_of secretData key = Some (json_Marshal (VMap v)))"
proof -
  from FetchSecret_result [where json_Unmarshal = json_Unmarshal
      and Sprint_float = Sprint_float and json_Marshal = json_Marshal, OF assms]
  obtain secretData where
    res: "AWSSecretsManagerProvider_FetchSecret json_Unmarshal Sprint_float json_Marshal p path
        = Inr secretData"
    and dist: "distinct (map fst secretData)"
    and val: "\<And>key. map_of secretData key =
        map_option (convert_value Sprint_float json_Marshal) (map_of rawData key)"
    by blast
  have at: "map_of secretData key = Some (convert_value Sprint_float json_Marshal v)"
    if "(key, v) \<in> set rawData" for key v
    using val [of key] map_of_is_SomeI [OF assms(3) that] by simp
  have "dom (map_of secretData) = dom (map_of rawData)"
    using val by (auto simp: dom_def)
  then have keys: "fst ` set secretData = fst ` set rawData"
    by (simp add: dom_map_of_conv_image_fst)
  show ?thesis
  proof (intro exI [of _ secretData] conjI allI impI)
    show "AWSSecretsManagerProvider_FetchSecret json_Unmarshal Sprint_float json_Marshal p path
        = Inr secretData" by (rule res)
    show "fst ` set secretData = fst ` set rawData" by (rule keys)
    show "distinct (map fst secretData)" by (rule dist)
  next
    fix key v assume "(key, VString v) \<in> set rawData"
    then show "map_of secretData key = Some v" using at by fastforce
  next
    fix key v assume "(key, VFloat64 v) \<in> set rawData"
    then show "map_of secretData key = Some (Sprint_float v)" using at by fastforce
  next
    fix key v assume "(key, VBool v) \<in> set rawData"
    then show "map_of secretData key = Some (if v then ''true'' else ''false'')"
      using at [of key "VBool v"] by (simp add: Sprint_bool_def)
  next
    fix key v assume "(key, VSlice v) \<in> set rawData"
    then show "map_of secretData key = Some (json_Marshal (VSlice v))" using at by fastforce
  next
    fix key v assume "(key, VMap v) \<in> set rawData"
    then show "map_of secretData key = Some (json_Marshal (VMap v))" using at by fastforce
  qed
qed

text \<open>
  The conversion at the object with a string, a number, a boolean, a null and an array.
\<close>

theorem FetchSecret_converts_every_key_witness:
  "client example_provider ''/prod/myapp/mixed'' = Inr (Some example_mixed_SecretString)
   \<and> example_json_Unmarshal example_mixed_SecretString = Inr example_mixed
   \<and> distinct (map fst example_mixed)
   \<and> (\<exists>secretData.
        AWSSecretsManagerProvider_FetchSecret example_json_Unmarshal example_Sprint_float
          example_json_Marshal example_provider ''/prod/myapp/mixed'' = Inr secretData
        \<and> fst ` set secretData = {''username'', ''port'', ''ssl'', ''timeout'', ''ports''}
        \<and> map_of secretData ''username'' = Some ''admin''
        \<and> map_of secretData ''port'' = Some ''3306''
        \<and> map_of secretData ''ssl'' = Some ''true''
        \<and> map_of secretData ''ports'' = Some ''[5432,3306]'')"
proof -
  have h1: "client example_provider ''/prod/myapp/mixed'' = Inr (Some example_mixed_SecretString)"
    by (simp add: example_provider_def example_client_def)
  have h2: "example_json_Unmarshal example_mixed_SecretString = Inr example_mixed"
    by (simp add: example_json_Unmarshal_def example_mixed_SecretString_def
        example_SecretString_def)
  have h3: "distinct (map fst example_mixed)"
    by (simp add: example_mixed_def)
  have keys: "fst ` set example_mixed = {''username'', ''port'', ''ssl'', ''timeout'', ''ports''}"
    by (simp add: example_mixed_def)
  have mem: "(''username'', VString ''admin'') \<in> set example_mixed"
    "(''port'', VFloat64 3306) \<in> set example_mixed"
    "(''ssl'', VBool True) \<in> set example_mixed"
    "(''ports'', VSlice [VFloat64 5432, VFloat64 3306]) \<in> set example_mixed"
    by (simp_all add: example_mixed_def)
  from FetchSecret_converts_every_key [where json_Unmarshal = example_json_Unmarshal
      and Sprint_float = example_Sprint_float and json_Marshal = example_json_Marshal,
      OF h1 h2 h3]
  obtain secretData where
    r: "AWSSecretsManagerProvider_FetchSecret example_json_Unmarshal example_Sprint_float
          example_json_Marshal example_provider ''/prod/myapp/mixed'' = Inr secretData"
    and k: "fst ` set secretData = fst ` set example_mixed"
    and s: "\<And>key v. (key, VString v) \<in> set example_mixed \<Longrightarrow> map_of secretData key = Some v"
    and f: "\<And>key v. (key, VFloat64 v) \<in> set example_mixed \<Longrightarrow>
              map_of secretData key = Some (example_Sprint_float v)"
    and b: "\<And>key v. (key, VBool v) \<in> set example_mixed \<Longrightarrow>
              map_of secretData key = Some (if v then ''true'' else ''false'')"
    and a: "\<And>key v. (key, VSlice v) \<in> set example_mixed \<Longrightarrow>
              map_of secretData key = Some (example_json_Marshal (VSlice v))"
    by blast
  have "map_of secretData ''username'' = Some ''admin''" using s [OF mem(1)] .
  moreover have "map_of secretData ''port'' = Some ''3306''"
    using f [OF mem(2)] by (simp add: example_Sprint_float_def)
  moreover have "map_of secretData ''ssl'' = Some ''true''" using b [OF mem(3)] by simp
  moreover have "map_of secretData ''ports'' = Some ''[5432,3306]''"
    using a [OF mem(4)] by (simp add: example_json_Marshal_def)
  ultimately show ?thesis using h1 h2 h3 r k keys by auto
qed

text \<open>
  C10. A key of the source's JSON object whose value is null is kept in the fetch result
  and mapped to the empty string.
\<close>

theorem FetchSecret_keeps_null_key:
  assumes "client p path = Inr (Some SecretString)"
    and "json_Unmarshal SecretString = Inr rawData"
    and "distinct (map fst rawData)"
    and "(key, VNil) \<in> set rawData"
  shows "\<exists>secretData.
      AWSSecretsManagerProvider_FetchSecret json_Unmarshal Sprint_float json_Marshal p path
        = Inr secretData
      \<and> key \<in> fst ` set secretData
      \<and> map_of secretData key = Some []"
proof -
  from FetchSecret_result [where json_Unmarshal = json_Unmarshal
      and Sprint_float = Sprint_float and json_Marshal = json_Marshal, OF assms(1-3)]
  obtain secretData where
    res: "AWSSecretsManagerProvider_FetchSecret json_Unmarshal Sprint_float json_Marshal p path
        = Inr secretData"
    and val: "\<And>key. map_of secretData key =
        map_option (convert_value Sprint_float json_Marshal) (map_of rawData key)"
    by blast
  have v: "map_of secretData key = Some []"
    using val [of key] map_of_is_SomeI [OF assms(3,4)] by simp
  then have "key \<in> dom (map_of secretData)" by blast
  then have "key \<in> fst ` set secretData" by (simp add: dom_map_of_conv_image_fst)
  with res v show ?thesis by blast
qed

text \<open>
  The key \<open>timeout\<close> of the example object, whose value is null.
\<close>

theorem FetchSecret_keeps_null_key_witness:
  "client example_provider ''/prod/myapp/mixed'' = Inr (Some example_mixed_SecretString)
   \<and> example_json_Unmarshal example_mixed_SecretString = Inr example_mixed
   \<and> distinct (map fst example_mixed)
   \<and> (''timeout'', VNil) \<in> set example_mixed
   \<and> (\<exists>secretData.
        AWSSecretsManagerProvider_FetchSecret example_json_Unmarshal example_Sprint_float
          example_json_Marshal example_provider ''/prod/myapp/mixed'' = Inr secretData
        \<and> ''timeout'' \<in> fst ` set secretData
        \<and> map_of secretData ''timeout'' = Some [])"
proof -
  have h1: "client example_provider ''/prod/myapp/mixed'' = Inr (Some example_mixed_SecretString)"
    by (simp add: example_provider_def example_client_def)
  have h2: "example_json_Unmarshal example_mixed_SecretString = Inr example_mixed"
    by (simp add: example_json_Unmarshal_def example_mixed_SecretString_def
        example_SecretString_def)
  have h3: "distinct (map fst example_mixed)"
    by (simp add: example_mixed_def)
  have h4: "(''timeout'', VNil) \<in> set example_mixed"
    by (simp add: example_mixed_def)
  show ?thesis
    using h1 h2 h3 h4
      FetchSecret_keeps_null_key [where json_Unmarshal = example_json_Unmarshal
        and Sprint_float = example_Sprint_float and json_Marshal = example_json_Marshal,
        OF h1 h2 h3 h4]
    by blast
qed

section \<open>Reconciliation: the paths that end before the upsert\<close>

text \<open>
  The request a successful parse returns has the namespace that was passed in, so for a
  pod's annotation the namespace check of \<open>Reconcile\<close> finds the two equal.
\<close>

lemma ParseAnnotation_Namespace:
  "ParseAnnotation unmarshal annotationValue namespace podName podUID = Inr syncRequest
    \<Longrightarrow> SecretSyncRequest.Namespace syncRequest = namespace"
  by (auto simp: ParseAnnotation_def split: if_splits sum.splits)

text \<open>The run of \<open>Reconcile\<close> when the provider's fetch returns an error.\<close>

lemma Reconcile_fetch_failed:
  assumes "Get_Pod env req w = Inr pod"
    and "map_of (Pod.Annotations pod) AnnotationKey = Some annotationValue"
    and "ParseAnnotation (yaml_Unmarshal env) annotationValue (Pod.Namespace pod) (Pod.Name pod)
           (UID pod) = Inr syncRequest"
    and "Get registry (SecretSyncRequest.Provider syncRequest) = Some secretProvider"
    and "FetchSecret secretProvider (SecretPath syncRequest) = Inl err"
  shows "Reconcile env registry req w =
      ((\<lparr>Requeue = True\<rparr>, Some err),
       w\<lparr>Events := Events w @
           [EmitSecretFetchFailed pod (SecretSyncRequest.Provider syncRequest)
              (SecretPath syncRequest) err]\<rparr>)"
  using assms ParseAnnotation_Namespace [OF assms(3)]
  by (simp add: Reconcile_def)

text \<open>
  C5. A reconciliation that ends before the upsert, because the pod has no sync
  annotation, the annotation does not parse, the namespaces differ, the provider is not
  registered or the fetch fails, issues no create and no update call, and leaves the
  stored secrets (and the pods) as they were.
\<close>

theorem Reconcile_early_exit_no_write:
  assumes "Get_Pod env req w = Inr pod"
    and "map_of (Pod.Annotations pod) AnnotationKey = None
       \<or> (\<exists>annotationValue err.
             map_of (Pod.Annotations pod) AnnotationKey = Some annotationValue
             \<and> ParseAnnotation (yaml_Unmarshal env) annotationValue (Pod.Namespace pod)
                   (Pod.Name pod) (UID pod) = Inl err)
       \<or> (\<exists>annotationValue syncRequest.
             map_of (Pod.Annotations pod) AnnotationKey = Some annotationValue
             \<and> ParseAnnotation (yaml_Unmarshal env) annotationValue (Pod.Namespace pod)
                   (Pod.Name pod) (UID pod) = Inr syncRequest
             \<and> (SecretSyncRequest.Namespace syncRequest \<noteq> Pod.Namespace pod
                  \<or> Get registry (SecretSyncRequest.Provider syncRequest) = None
                  \<or> (\<exists>secretProvider err.
                        Get registry (SecretSyncRequest.Provider syncRequest)
                          = Some secretProvider
                        \<and> FetchSecret secretProvider (SecretPath syncRequest) = Inl err)))"
  shows "Writes (snd (Reconcile env registry req w)) = Writes w
       \<and> Secrets (snd (Reconcile env registry req w)) = Secrets w
       \<and> Pods (snd (Reconcile env registry req w)) = Pods w"
  using assms by (auto simp: Reconcile_def)

text \<open>
  The pod \<open>default/api\<close> names the provider \<open>vault\<close>, which is not registered: the run
  emits \<open>ProviderUnsupported\<close> and writes nothing. The annotation \<open>{invalid\<close> of the pod
  \<open>default/broken\<close> does not parse: the run emits \<open>AnnotationInvalid\<close> and writes nothing.
\<close>

theorem Reconcile_early_exit_no_write_witness:
  "Get_Pod example_env (''default'', ''api'') example_cluster
     = Inr (example_pod ''default'' ''api'' annotation_vault)
   \<and> map_of (Pod.Annotations (example_pod ''default'' ''api'' annotation_vault)) AnnotationKey
     = Some annotation_vault
   \<and> ParseAnnotation (yaml_Unmarshal example_env) annotation_vault ''default'' ''api'' ''uid-123''
     = Inr \<lparr>SecretSyncRequest.Provider = ''vault'', SecretPath = ''secret/data/api-keys'',
            SecretName = ''api-keys'', Namespace = ''default'', PodName = ''api'',
            PodUID = ''uid-123'', KeyMapping = []\<rparr>
   \<and> Get example_registry ''vault'' = None
   \<and> Writes (snd (Reconcile example_env example_registry (''default'', ''api'') example_cluster))
     = []
   \<and> Secrets (snd (Reconcile example_env example_registry (''default'', ''api'') example_cluster))
     = Map.empty
   \<and> map Reason
        (Events (snd (Reconcile example_env example_registry (''default'', ''api'')
           example_cluster)))
     = [''ProviderUnsupported'']
   \<and> Get_Pod example_env (''default'', ''broken'') example_cluster
     = Inr (example_pod ''default'' ''broken'' ''{invalid'')
   \<and> ParseAnnotation (yaml_Unmarshal example_env) ''{invalid'' ''default'' ''broken''
        ''uid-123''
     = Inl (Wrapf ''failed to parse annotation YAML'' (LibError ''yaml: syntax error''))
   \<and> Writes (snd (Reconcile example_env example_registry (''default'', ''broken'')
        example_cluster)) = []
   \<and> Secrets (snd (Reconcile example_env example_registry (''default'', ''broken'')
        example_cluster)) = Map.empty
   \<and> map Reason
        (Events (snd (Reconcile example_env example_registry (''default'', ''broken'')
           example_cluster)))
     = [''AnnotationInvalid'']"
proof -
  let ?api = "example_pod ''default'' ''api'' annotation_vault"
  let ?broken = "example_pod ''default'' ''broken'' ''{invalid''"
  have g: "Get_Pod example_env (''default'', ''api'') example_cluster = Inr ?api"
    by (simp add: example_defs code_defs example_cluster_def)
  have a: "map_of (Pod.Annotations ?api) AnnotationKey = Some annotation_vault"
    by (simp add: example_pod_def)
  have p: "ParseAnnotation (yaml_Unmarshal example_env) annotation_vault ''default'' ''api''
      ''uid-123''
     = Inr \<lparr>SecretSyncRequest.Provider = ''vault'', SecretPath = ''secret/data/api-keys'',
            SecretName = ''api-keys'', Namespace = ''default'', PodName = ''api'',
            PodUID = ''uid-123'', KeyMapping = []\<rparr>"
    by (simp add: example_defs code_defs example_cluster_def)
  have r: "Get example_registry ''vault'' = None"
    by (simp add: example_defs code_defs example_cluster_def)
  have e: "map Reason
        (Events (snd (Reconcile example_env example_registry (''default'', ''api'')
           example_cluster)))
     = [''ProviderUnsupported'']"
    by (simp add: example_defs code_defs example_cluster_def)
  have g': "Get_Pod example_env (''default'', ''broken'') example_cluster = Inr ?broken"
    by (simp add: example_defs code_defs example_cluster_def)
  have a': "map_of (Pod.Annotations ?broken) AnnotationKey = Some ''{invalid''"
    by (simp add: example_pod_def)
  have p': "ParseAnnotation (yaml_Unmarshal example_env) ''{invalid'' ''default'' ''broken''
      ''uid-123''
     = Inl (Wrapf ''failed to parse annotation YAML'' (LibError ''yaml: syntax error''))"
    by (simp add: example_defs code_defs example_cluster_def)
  have e': "map Reason
        (Events (snd (Reconcile example_env example_registry (''default'', ''broken'')
           example_cluster)))
     = [''AnnotationInvalid'']"
    by (simp add: example_defs code_defs example_cluster_def)
  have w: "Writes example_cluster = []" "Secrets example_cluster = Map.empty"
    by (simp_all add: example_cluster_def)
  have api: "Writes (snd (Reconcile example_env example_registry (''default'', ''api'')
        example_cluster)) = Writes example_cluster
      \<and> Secrets (snd (Reconcile example_env example_registry (''default'', ''api'')
        example_cluster)) = Secrets example_cluster
      \<and> Pods (snd (Reconcile example_env example_registry (''default'', ''api'')
        example_cluster)) = Pods example_cluster"
  proof (rule Reconcile_early_exit_no_write [OF g])
    have "Pod.Namespace ?api = ''default''" "Pod.Name ?api = ''api''" "UID ?api = ''uid-123''"
      by (simp_all add: example_pod_def)
    then show "map_of (Pod.Annotations ?api) AnnotationKey = None
       \<or> (\<exists>annotationValue err.
             map_of (Pod.Annotations ?api) AnnotationKey = Some annotationValue
             \<and> ParseAnnotation (yaml_Unmarshal example_env) annotationValue (Pod.Namespace ?api)
                   (Pod.Name ?api) (UID ?api) = Inl err)
       \<or> (\<exists>annotationValue syncRequest.
             map_of (Pod.Annotations ?api) AnnotationKey = Some annotationValue
             \<and> ParseAnnotation (yaml_Unmarshal example_env) annotationValue (Pod.Namespace ?api)
                   (Pod.Name ?api) (UID ?api) = Inr syncRequest
             \<and> (SecretSyncRequest.Namespace syncRequest \<noteq> Pod.Namespace ?api
                  \<or> Get example_registry (SecretSyncRequest.Provider syncRequest) = None
                  \<or> (\<exists>secretProvider err.
                        Get example_registry (SecretSyncRequest.Provider syncRequest)
                          = Some secretProvider
                        \<and> FetchSecret secretProvider (SecretPath syncRequest) = Inl err)))"
      using a p r by simp
  qed
  have broken: "Writes (snd (Reconcile example_env example_registry (''default'', ''broken'')
        example_cluster)) = Writes example_cluster
      \<and> Secrets (snd (Reconcile example_env example_registry (''default'', ''broken'')
        example_cluster)) = Secrets example_cluster
      \<and> Pods (snd (Reconcile example_env example_registry (''default'', ''broken'')
        example_cluster)) = Pods example_cluster"
  proof (rule Reconcile_early_exit_no_write [OF g'])
    have "Pod.Namespace ?broken = ''default''" "Pod.Name ?broken = ''broken''"
      "UID ?broken = ''uid-123''"
      by (simp_all add: example_pod_def)
    then show "map_of (Pod.Annotations ?broken) AnnotationKey = None
       \<or> (\<exists>annotationValue err.
             map_of (Pod.Annotations ?broken) AnnotationKey = Some annotationValue
             \<and> ParseAnnotation (yaml_Unmarshal example_env) annotationValue
                   (Pod.Namespace ?broken) (Pod.Name ?broken) (UID ?broken) = Inl err)
       \<or> (\<exists>annotationValue syncRequest.
             map_of (Pod.Annotations ?broken) AnnotationKey = Some annotationValue
             \<and> ParseAnnotation (yaml_Unmarshal example_env) annotationValue
                   (Pod.Namespace ?broken) (Pod.Name ?broken) (UID ?broken) = Inr syncRequest
             \<and> (SecretSyncRequest.Namespace syncRequest \<noteq> Pod.Namespace ?broken
                  \<or> Get example_registry (SecretSyncRequest.Provider syncRequest) = None
                  \<or> (\<exists>secretProvider err.
                        Get example_registry (SecretSyncRequest.Provider syncRequest)
                          = Some secretProvider
                        \<and> FetchSecret secretProvider (SecretPath syncRequest) = Inl err)))"
      using a' p' by simp
  qed
  show ?thesis using g a p r e g' p' e' api broken w by simp
qed

text \<open>
  C2, as the code has it. The code does not classify fetch errors. Whenever the provider's
  fetch fails, with whatever error, the run emits one \<open>SecretFetchFailed\<close> warning on the
  pod and returns that error with \<open>Requeue\<close> set, a retryable failure for the scheduler;
  it issues no write. No fetch failure ends as a terminal success.
\<close>

theorem Reconcile_fetch_failure_requeues:
  assumes "Get_Pod env req w = Inr pod"
    and "map_of (Pod.Annotations pod) AnnotationKey = Some annotationValue"
    and "ParseAnnotation (yaml_Unmarshal env) annotationValue (Pod.Namespace pod) (Pod.Name pod)
           (UID pod) = Inr syncRequest"
    and "Get registry (SecretSyncRequest.Provider syncRequest) = Some secretProvider"
    and "FetchSecret secretProvider (SecretPath syncRequest) = Inl err"
  shows "fst (Reconcile env registry req w) = (\<lparr>Requeue = True\<rparr>, Some err)
       \<and> (\<exists>event. Events (snd (Reconcile env registry req w)) = Events w @ [event]
             \<and> Reason event = ''SecretFetchFailed'' \<and> EventType event = ''Warning''
             \<and> InvolvedObject event = (Pod.Namespace pod, Pod.Name pod))
       \<and> Writes (snd (Reconcile env registry req w)) = Writes w
       \<and> Secrets (snd (Reconcile env registry req w)) = Secrets w"
  using Reconcile_fetch_failed [OF assms]
  by (simp add: EmitSecretFetchFailed_def Eventf_def EventReasonSecretFetchFailed_def)

text \<open>
  The pod \<open>default/web\<close> asks for the path \<open>/prod/missing\<close>, which the source does not
  have.
\<close>

theorem Reconcile_fetch_failure_requeues_witness:
  "Get_Pod example_env (''default'', ''web'')
       (world_with (example_pod ''default'' ''web'' annotation_missing_path) None)
     = Inr (example_pod ''default'' ''web'' annotation_missing_path)
   \<and> map_of (Pod.Annotations (example_pod ''default'' ''web'' annotation_missing_path))
        AnnotationKey = Some annotation_missing_path
   \<and> Get example_registry ''aws-secretsmanager''
     = Some (AWSSecretsManagerProvider_interface example_json_Unmarshal example_Sprint_float
               example_json_Marshal example_provider)
   \<and> FetchSecret (AWSSecretsManagerProvider_interface example_json_Unmarshal
          example_Sprint_float example_json_Marshal example_provider) ''/prod/missing''
     = Inl (Wrapf ''failed to fetch secret from AWS Secrets Manager''
              (LibError ''ResourceNotFoundException''))
   \<and> fst (Reconcile example_env example_registry (''default'', ''web'')
            (world_with (example_pod ''default'' ''web'' annotation_missing_path) None))
     = (\<lparr>Requeue = True\<rparr>,
        Some (Wrapf ''failed to fetch secret from AWS Secrets Manager''
                (LibError ''ResourceNotFoundException'')))
   \<and> Writes (snd (Reconcile example_env example_registry (''default'', ''web'')
            (world_with (example_pod ''default'' ''web'' annotation_missing_path) None))) = []"
proof -
  let ?pod = "example_pod ''default'' ''web'' annotation_missing_path"
  let ?w = "world_with ?pod None"
  let ?iface = "AWSSecretsManagerProvider_interface example_json_Unmarshal
      example_Sprint_float example_json_Marshal example_provider"
  let ?req = "\<lparr>SecretSyncRequest.Provider = ''aws-secretsmanager'',
      SecretPath = ''/prod/missing'', SecretName = ''db-credentials'', Namespace = ''default'',
      PodName = ''web'', PodUID = ''uid-123'', KeyMapping = []\<rparr>"
  have g: "Get_Pod example_env (''default'', ''web'') ?w = Inr ?pod"
    by (simp add: example_defs code_defs)
  have a: "map_of (Pod.Annotations ?pod) AnnotationKey = Some annotation_missing_path"
    by (simp add: example_pod_def)
  have p: "ParseAnnotation (yaml_Unmarshal example_env) annotation_missing_path
      (Pod.Namespace ?pod) (Pod.Name ?pod) (UID ?pod) = Inr ?req"
    by (simp add: example_defs code_defs)
  have r: "Get example_registry (SecretSyncRequest.Provider ?req) = Some ?iface"
    by (simp add: example_defs code_defs)
  have f: "FetchSecret ?iface (SecretPath ?req)
     = Inl (Wrapf ''failed to fetch secret from AWS Secrets Manager''
              (LibError ''ResourceNotFoundException''))"
    by (simp add: example_defs code_defs)
  have w: "Writes ?w = []" by (simp add: world_with_def)
  from Reconcile_fetch_failure_requeues [OF g a p r f] g a r f w
  show ?thesis by simp
qed

text \<open>
  C2 as stated fails: the source answers \<open>/prod/missing\<close> with its not-found error, a
  permanent failure, and the run returns that error with \<open>Requeue\<close> set instead of
  ending as a terminal success without retry.
\<close>

theorem not_found_fetch_is_requeued:
  "FetchSecret (AWSSecretsManagerProvider_interface example_json_Unmarshal
          example_Sprint_float example_json_Marshal example_provider) ''/prod/missing''
     = Inl (Wrapf ''failed to fetch secret from AWS Secrets Manager''
              (LibError ''ResourceNotFoundException''))
   \<and> Reconcile example_env example_registry (''default'', ''web'')
        (world_with (example_pod ''default'' ''web'' annotation_missing_path) None)
     = ((\<lparr>Requeue = True\<rparr>,
         Some (Wrapf ''failed to fetch secret from AWS Secrets Manager''
                 (LibError ''ResourceNotFoundException''))),
        \<lparr>Pods = [example_pod ''default'' ''web'' annotation_missing_path],
         Secrets = Map.empty,
         Events = [EmitSecretFetchFailed
                     (example_pod ''default'' ''web'' annotation_missing_path)
                     ''aws-secretsmanager'' ''/prod/missing''
                     (Wrapf ''failed to fetch secret from AWS Secrets Manager''
                        (LibError ''ResourceNotFoundException''))],
         Writes = []\<rparr>)
   \<and> fst (Reconcile example_env example_registry (''default'', ''web'')
        (world_with (example_pod ''default'' ''web'' annotation_missing_path) None))
     \<noteq> (\<lparr>Requeue = False\<rparr>, None)"
  by (simp add: example_defs code_defs)

section \<open>Reconciliation: the namespace\<close>

text \<open>The upsert emits nothing but the success notification.\<close>

lemma upsert_events:
  "\<exists>events. Events (snd (upsert env pod syncRequest secretData w)) = Events w @ events
     \<and> list_all (\<lambda>event. Reason event = ''SecretSyncSuccess'') events"
proof -
  have c: "Events (snd (Create env s w)) = Events w" for s
    by (simp add: Create_def Let_def split: option.splits)
  have u: "Events (snd (Update env s w)) = Events w" for s
    by (simp add: Update_def Let_def split: option.splits)
  obtain err secret1 where
    g: "Get_Secret env
          (ObjectKeyFromObject
             \<lparr>Secret.Name = SecretSyncRequest.SecretName syncRequest,
              Namespace = SecretSyncRequest.Namespace syncRequest,
              Labels = [], Annotations = [], Data = [], StringData = [], Type = []\<rparr>)
          \<lparr>Secret.Name = SecretSyncRequest.SecretName syncRequest,
              Namespace = SecretSyncRequest.Namespace syncRequest,
              Labels = [], Annotations = [], Data = [], StringData = [], Type = []\<rparr> w
        = (err, secret1)"
    by (meson surj_pair)
  show ?thesis
  proof (cases "err \<noteq> None \<and> \<not> IsNotFound err")
    case True
    then show ?thesis using g by (simp add: upsert_def)
  next
    case False
    let ?s2 = "secret1
                \<lparr>Labels := AList.update ManagedByLabel ManagedByValue (Secret.Labels secret1),
                 Annotations :=
                   AList.update SyncedAtAnnotation (Now env)
                     (AList.update SourcePathAnnotation (SecretPath syncRequest)
                        (Secret.Annotations secret1)),
                 StringData := secretStringData (KeyMapping syncRequest) secretData,
                 Type := SecretTypeOpaque\<rparr>"
    obtain e' w' where
      wr: "(if \<not> IsNotFound err then Update env ?s2 w else Create env ?s2 w) = (e', w')"
      by (meson surj_pair)
    have ev: "Events w' = Events w"
      using wr c [of ?s2] u [of ?s2] by (auto split: if_splits)
    show ?thesis using False g wr ev
      by (cases e')
        (auto simp: upsert_def Let_def EmitSecretSyncSuccess_def Eventf_def
          EventReasonSecretSyncSuccess_def)
  qed
qed

text \<open>
  The upsert issues its create or update call for the secret of the request's namespace
  and name, and changes the store under that key only, when the store holds under that
  key a secret of that namespace and name (or none).
\<close>

lemma upsert_writes:
  assumes "\<And>found. Secrets w (SecretSyncRequest.Namespace syncRequest,
                SecretSyncRequest.SecretName syncRequest) = Some found \<Longrightarrow>
             ObjectKeyFromObject found =
               (SecretSyncRequest.Namespace syncRequest,
                SecretSyncRequest.SecretName syncRequest)"
  shows "(\<exists>calls. Writes (snd (upsert env pod syncRequest secretData w)) = Writes w @ calls
           \<and> list_all (\<lambda>call. ObjectKeyFromObject (written_secret call) =
                 (SecretSyncRequest.Namespace syncRequest,
                  SecretSyncRequest.SecretName syncRequest)) calls)
       \<and> (\<forall>key. key \<noteq> (SecretSyncRequest.Namespace syncRequest,
                         SecretSyncRequest.SecretName syncRequest) \<longrightarrow>
             Secrets (snd (upsert env pod syncRequest secretData w)) key = Secrets w key)"
proof -
  let ?key = "(SecretSyncRequest.Namespace syncRequest,
               SecretSyncRequest.SecretName syncRequest)"
  let ?secret0 = "\<lparr>Secret.Name = SecretSyncRequest.SecretName syncRequest,
              Namespace = SecretSyncRequest.Namespace syncRequest,
              Labels = [], Annotations = [], Data = [], StringData = [], Type = []\<rparr>"
  have k0: "ObjectKeyFromObject ?secret0 = ?key" by (simp add: ObjectKeyFromObject_def)
  obtain err secret1 where g: "Get_Secret env ?key ?secret0 w = (err, secret1)"
    by (meson surj_pair)
  have k1: "ObjectKeyFromObject secret1 = ?key"
    using g assms k0 by (auto simp: Get_Secret_def split: option.splits)
  let ?s2 = "secret1
                \<lparr>Labels := AList.update ManagedByLabel ManagedByValue (Secret.Labels secret1),
                 Annotations :=
                   AList.update SyncedAtAnnotation (Now env)
                     (AList.update SourcePathAnnotation (SecretPath syncRequest)
                        (Secret.Annotations secret1)),
                 StringData := secretStringData (KeyMapping syncRequest) secretData,
                 Type := SecretTypeOpaque\<rparr>"
  have k2: "ObjectKeyFromObject ?s2 = ?key" using k1 by (simp add: ObjectKeyFromObject_def)
  have cw: "Writes (snd (Create env ?s2 w)) = Writes w @ [CreateCall ?s2]"
    by (simp add: Create_def Let_def split: option.splits)
  have uw: "Writes (snd (Update env ?s2 w)) = Writes w @ [UpdateCall ?s2]"
    by (simp add: Update_def Let_def split: option.splits)
  have cs: "Secrets (snd (Create env ?s2 w)) key = Secrets w key" if "key \<noteq> ?key" for key
    using that k2 by (simp add: Create_def Let_def split: option.splits)
  have us: "Secrets (snd (Update env ?s2 w)) key = Secrets w key" if "key \<noteq> ?key" for key
    using that k2 by (simp add: Update_def Let_def split: option.splits)
  show ?thesis
  proof (cases "err \<noteq> None \<and> \<not> IsNotFound err")
    case True
    then show ?thesis using g k0 by (simp add: upsert_def)
  next
    case False
    obtain e' w' where
      wr: "(if \<not> IsNotFound err then Update env ?s2 w else Create env ?s2 w) = (e', w')"
      by (meson surj_pair)
    have w'w: "Writes w' = Writes w @ [if \<not> IsNotFound err then UpdateCall ?s2 else CreateCall ?s2]"
      using wr cw uw by (auto split: if_splits)
    have w's: "Secrets w' key = Secrets w key" if "key \<noteq> ?key" for key
      using wr cs [OF that] us [OF that] by (auto split: if_splits)
    have res: "Writes (snd (upsert env pod syncRequest secretData w)) = Writes w'
        \<and> Secrets (snd (upsert env pod syncRequest secretData w)) = Secrets w'"
      using False g wr k0 by (cases e') (auto simp: upsert_def Let_def)
    have "list_all (\<lambda>call. ObjectKeyFromObject (written_secret call) = ?key)
        [if \<not> IsNotFound err then UpdateCall ?s2 else CreateCall ?s2]"
      using k2 by (simp add: written_secret_def)
    then show ?thesis using res w'w w's by auto
  qed
qed

text \<open>
  C6, as the code has it. The request a successful parse returns has the namespace that
  was passed in, the pod's; the payload has no namespace field to take one from. So no
  disagreement is ever found: a reconciliation whose annotation parses emits no
  \<open>AnnotationInvalid\<close> notification, whatever the annotation text says. And the secret is
  written in the pod's namespace: with the store holding each secret under its own
  namespace and name, every create or update call of the run is for the secret of the
  pod's namespace and the parsed name, and no other secret of the store changes.
\<close>

theorem namespace_taken_from_pod:
  "(ParseAnnotation unmarshal annotationValue namespace podName podUID = Inr syncRequest
      \<longrightarrow> SecretSyncRequest.Namespace syncRequest = namespace)
   \<and> (Get_Pod env req w = Inr pod
       \<and> map_of (Pod.Annotations pod) AnnotationKey = Some text
       \<and> ParseAnnotation (yaml_Unmarshal env) text (Pod.Namespace pod) (Pod.Name pod) (UID pod)
            = Inr parsed
      \<longrightarrow> (\<exists>events. Events (snd (Reconcile env registry req w)) = Events w @ events
             \<and> list_all (\<lambda>event. Reason event \<noteq> ''AnnotationInvalid'') events))
   \<and> (Get_Pod env req w = Inr pod
       \<and> map_of (Pod.Annotations pod) AnnotationKey = Some text
       \<and> ParseAnnotation (yaml_Unmarshal env) text (Pod.Namespace pod) (Pod.Name pod) (UID pod)
            = Inr parsed
       \<and> (\<forall>found. Secrets w (Pod.Namespace pod, SecretSyncRequest.SecretName parsed)
                      = Some found \<longrightarrow>
             ObjectKeyFromObject found
               = (Pod.Namespace pod, SecretSyncRequest.SecretName parsed))
      \<longrightarrow> (\<exists>calls. Writes (snd (Reconcile env registry req w)) = Writes w @ calls
             \<and> list_all (\<lambda>call. Secret.Namespace (written_secret call) = Pod.Namespace pod
                          \<and> Secret.Name (written_secret call)
                              = SecretSyncRequest.SecretName parsed) calls)
          \<and> (\<forall>key. key \<noteq> (Pod.Namespace pod, SecretSyncRequest.SecretName parsed) \<longrightarrow>
                Secrets (snd (Reconcile env registry req w)) key = Secrets w key))"
proof (intro conjI impI)
  assume "ParseAnnotation unmarshal annotationValue namespace podName podUID = Inr syncRequest"
  then show "SecretSyncRequest.Namespace syncRequest = namespace"
    by (rule ParseAnnotation_Namespace)
next
  assume h: "Get_Pod env req w = Inr pod
       \<and> map_of (Pod.Annotations pod) AnnotationKey = Some text
       \<and> ParseAnnotation (yaml_Unmarshal env) text (Pod.Namespace pod) (Pod.Name pod) (UID pod)
            = Inr parsed"
  then have ns: "SecretSyncRequest.Namespace parsed = Pod.Namespace pod"
    using ParseAnnotation_Namespace by blast
  show "\<exists>events. Events (snd (Reconcile env registry req w)) = Events w @ events
             \<and> list_all (\<lambda>event. Reason event \<noteq> ''AnnotationInvalid'') events"
  proof (cases "Get registry (SecretSyncRequest.Provider parsed)")
    case None
    then have "Events (snd (Reconcile env registry req w)) =
        Events w @ [EmitProviderNotFound pod (SecretSyncRequest.Provider parsed)]"
      using h ns by (simp add: Reconcile_def)
    then show ?thesis
      by (simp add: EmitProviderNotFound_def Eventf_def EventReasonProviderUnsupported_def)
  next
    case (Some secretProvider)
    show ?thesis
    proof (cases "FetchSecret secretProvider (SecretPath parsed)")
      case (Inl err)
      then have "Events (snd (Reconcile env registry req w)) =
          Events w @ [EmitSecretFetchFailed pod (SecretSyncRequest.Provider parsed)
                        (SecretPath parsed) err]"
        using h ns Some by (simp add: Reconcile_def)
      then show ?thesis
        by (simp add: EmitSecretFetchFailed_def Eventf_def EventReasonSecretFetchFailed_def)
    next
      case (Inr secretData)
      then have r: "Reconcile env registry req w = upsert env pod parsed secretData w"
        using h ns Some by (simp add: Reconcile_def)
      from upsert_events [of env pod parsed secretData w]
      obtain events where
        e: "Events (snd (upsert env pod parsed secretData w)) = Events w @ events"
        and s: "list_all (\<lambda>event. Reason event = ''SecretSyncSuccess'') events"
        by blast
      have "list_all (\<lambda>event. Reason event \<noteq> ''AnnotationInvalid'') events"
        using s by (induction events) auto
      then show ?thesis using e r by auto
    qed
  qed
next
  assume h: "Get_Pod env req w = Inr pod
       \<and> map_of (Pod.Annotations pod) AnnotationKey = Some text
       \<and> ParseAnnotation (yaml_Unmarshal env) text (Pod.Namespace pod) (Pod.Name pod) (UID pod)
            = Inr parsed
       \<and> (\<forall>found. Secrets w (Pod.Namespace pod, SecretSyncRequest.SecretName parsed)
                      = Some found \<longrightarrow>
             ObjectKeyFromObject found
               = (Pod.Namespace pod, SecretSyncRequest.SecretName parsed))"
  then have ns: "SecretSyncRequest.Namespace parsed = Pod.Namespace pod"
    using ParseAnnotation_Namespace by blast
  have early: "Writes (snd (Reconcile env registry req w)) = Writes w
      \<and> Secrets (snd (Reconcile env registry req w)) = Secrets w"
    if "Get registry (SecretSyncRequest.Provider parsed) = None
      \<or> (\<exists>secretProvider err. Get registry (SecretSyncRequest.Provider parsed) = Some secretProvider
            \<and> FetchSecret secretProvider (SecretPath parsed) = Inl err)"
    using that h ns by (auto simp: Reconcile_def)
  have "(\<exists>calls. Writes (snd (Reconcile env registry req w)) = Writes w @ calls
             \<and> list_all (\<lambda>call. Secret.Namespace (written_secret call) = Pod.Namespace pod
                          \<and> Secret.Name (written_secret call)
                              = SecretSyncRequest.SecretName parsed) calls)
          \<and> (\<forall>key. key \<noteq> (Pod.Namespace pod, SecretSyncRequest.SecretName parsed) \<longrightarrow>
                Secrets (snd (Reconcile env registry req w)) key = Secrets w key)"
  proof (cases "Get registry (SecretSyncRequest.Provider parsed)")
    case None
    then show ?thesis using early by simp
  next
    case (Some secretProvider)
    show ?thesis
    proof (cases "FetchSecret secretProvider (SecretPath parsed)")
      case (Inl err)
      then show ?thesis using early Some by simp
    next
      case (Inr secretData)
      then have r: "Reconcile env registry req w = upsert env pod parsed secretData w"
        using h ns Some by (simp add: Reconcile_def)
      have c: "\<And>found. Secrets w (SecretSyncRequest.Namespace parsed,
                SecretSyncRequest.SecretName parsed) = Some found \<Longrightarrow>
             ObjectKeyFromObject found =
               (SecretSyncRequest.Namespace parsed, SecretSyncRequest.SecretName parsed)"
        using h ns by simp
      from upsert_writes [OF c, where env = env and pod = pod and secretData = secretData]
      obtain calls where
        cw: "Writes (snd (upsert env pod parsed secretData w)) = Writes w @ calls"
        and ck: "list_all (\<lambda>call. ObjectKeyFromObject (written_secret call) =
                 (SecretSyncRequest.Namespace parsed, SecretSyncRequest.SecretName parsed)) calls"
        and cs: "\<And>key. key \<noteq> (SecretSyncRequest.Namespace parsed,
                         SecretSyncRequest.SecretName parsed) \<Longrightarrow>
             Secrets (snd (upsert env pod parsed secretData w)) key = Secrets w key"
        by blast
      have "list_all (\<lambda>call. Secret.Namespace (written_secret call) = Pod.Namespace pod
                          \<and> Secret.Name (written_secret call)
                              = SecretSyncRequest.SecretName parsed) calls"
        using ck ns by (induction calls) (auto simp: ObjectKeyFromObject_def)
      then show ?thesis using cw cs r ns by auto
    qed
  qed
  then show "\<exists>calls. Writes (snd (Reconcile env registry req w)) = Writes w @ calls
             \<and> list_all (\<lambda>call. Secret.Namespace (written_secret call) = Pod.Namespace pod
                          \<and> Secret.Name (written_secret call)
                              = SecretSyncRequest.SecretName parsed) calls"
    and "\<forall>key. key \<noteq> (Pod.Namespace pod, SecretSyncRequest.SecretName parsed) \<longrightarrow>
                Secrets (snd (Reconcile env registry req w)) key = Secrets w key"
    by blast+
qed

text \<open>
  The pod \<open>default/web\<close> with a key mapping, the secret \<open>default/db-credentials\<close>
  stored: the request has the namespace \<open>default\<close>, the run emits the success
  notification only, its one write is for \<open>default/db-credentials\<close>, and nothing appears
  in the namespace \<open>other\<close>.
\<close>

theorem namespace_taken_from_pod_witness:
  "ParseAnnotation example_yaml_Unmarshal annotation_with_keys ''default'' ''web'' ''uid-123''
     = Inr \<lparr>SecretSyncRequest.Provider = ''aws-secretsmanager'',
            SecretPath = ''/prod/myapp/database'', SecretName = ''db-credentials'',
            Namespace = ''default'', PodName = ''web'', PodUID = ''uid-123'',
            KeyMapping = [(''database'', ''DB_HOST''), (''password'', ''DB_PASSWORD'')]\<rparr>
   \<and> Get_Pod example_env (''default'', ''web'')
        (world_with (example_pod ''default'' ''web'' annotation_with_keys)
           (Some (example_secret [(ManagedByLabel, ManagedByValue)])))
     = Inr (example_pod ''default'' ''web'' annotation_with_keys)
   \<and> map_of (Pod.Annotations (example_pod ''default'' ''web'' annotation_with_keys))
        AnnotationKey = Some annotation_with_keys
   \<and> Secrets (world_with (example_pod ''default'' ''web'' annotation_with_keys)
                (Some (example_secret [(ManagedByLabel, ManagedByValue)])))
        (''default'', ''db-credentials'')
     = Some (example_secret [(ManagedByLabel, ManagedByValue)])
   \<and> ObjectKeyFromObject (example_secret [(ManagedByLabel, ManagedByValue)])
     = (''default'', ''db-credentials'')
   \<and> map Reason (Events (snd (run_example annotation_with_keys
          (Some (example_secret [(ManagedByLabel, ManagedByValue)])))))
     = [''SecretSyncSuccess'']
   \<and> map (\<lambda>call. (Secret.Namespace (written_secret call), Secret.Name (written_secret call)))
        (Writes (snd (run_example annotation_with_keys
          (Some (example_secret [(ManagedByLabel, ManagedByValue)])))))
     = [(''default'', ''db-credentials'')]
   \<and> Secrets (snd (run_example annotation_with_keys
          (Some (example_secret [(ManagedByLabel, ManagedByValue)]))))
        (''other'', ''db-credentials'') = None"
proof -
  let ?pod = "example_pod ''default'' ''web'' annotation_with_keys"
  let ?sec = "example_secret [(ManagedByLabel, ManagedByValue)]"
  let ?w = "world_with ?pod (Some ?sec)"
  let ?req = "\<lparr>SecretSyncRequest.Provider = ''aws-secretsmanager'',
            SecretPath = ''/prod/myapp/database'', SecretName = ''db-credentials'',
            Namespace = ''default'', PodName = ''web'', PodUID = ''uid-123'',
            KeyMapping = [(''database'', ''DB_HOST''), (''password'', ''DB_PASSWORD'')]\<rparr>"
  have p: "ParseAnnotation example_yaml_Unmarshal annotation_with_keys ''default'' ''web''
      ''uid-123'' = Inr ?req"
    by (simp add: example_defs code_defs)
  have g: "Get_Pod example_env (''default'', ''web'') ?w = Inr ?pod"
    by (simp add: example_defs code_defs)
  have a: "map_of (Pod.Annotations ?pod) AnnotationKey = Some annotation_with_keys"
    by (simp add: example_pod_def)
  have s: "Secrets ?w (''default'', ''db-credentials'') = Some ?sec"
    by (simp add: world_with_def example_secret_def ObjectKeyFromObject_def)
  have k: "ObjectKeyFromObject ?sec = (''default'', ''db-credentials'')"
    by (simp add: example_secret_def ObjectKeyFromObject_def)
  have e: "map Reason (Events (snd (run_example annotation_with_keys (Some ?sec))))
     = [''SecretSyncSuccess'']"
    by (simp add: example_defs code_defs example_secret_def)
  have wr: "map (\<lambda>call. (Secret.Namespace (written_secret call),
                Secret.Name (written_secret call)))
        (Writes (snd (run_example annotation_with_keys (Some ?sec))))
     = [(''default'', ''db-credentials'')]"
    by (simp add: example_defs code_defs example_secret_def written_secret_def)
  have o: "Secrets (snd (run_example annotation_with_keys (Some ?sec)))
        (''other'', ''db-credentials'') = None"
    by (simp add: example_defs code_defs example_secret_def)
  show ?thesis
    using p g a s k e wr o
      namespace_taken_from_pod [of example_yaml_Unmarshal annotation_with_keys "''default''"
        "''web''" "''uid-123''" ?req example_env "(''default'', ''web'')"
        ?w ?pod annotation_with_keys ?req example_registry]
    by simp
qed

text \<open>
  C6 as stated fails: the annotation of the pod \<open>default/web\<close> says
  \<open>namespace: other\<close>. The decoder skips the key, the run is no validation error: it
  succeeds, emits \<open>SecretSyncSuccess\<close> and creates the secret in \<open>default\<close>.
\<close>

theorem other_namespace_is_not_rejected:
  "example_yaml_Unmarshal annotation_other_namespace
     = Inr \<lparr>PodAnnotation.Provider = ''aws-secretsmanager'', Path = ''/prod/myapp/database'',
            SecretName = ''db-credentials'', Keys = []\<rparr>
   \<and> fst (run_example annotation_other_namespace None) = (\<lparr>Requeue = False\<rparr>, None)
   \<and> map Reason (Events (snd (run_example annotation_other_namespace None)))
     = [''SecretSyncSuccess'']
   \<and> map_option Data
        (Secrets (snd (run_example annotation_other_namespace None))
           (''default'', ''db-credentials''))
     = Some [(''DB_HOST'', ''h''), (''DB_PASSWORD'', ''p'')]
   \<and> Secrets (snd (run_example annotation_other_namespace None)) (''other'', ''db-credentials'')
     = None"
  by (simp add: example_defs code_defs)

section \<open>Reconciliation: updating an existing secret\<close>

text \<open>
  C1. The managed secret \<open>default/db-credentials\<close> exists with the payload key
  \<open>stale\<close>; the source has the keys \<open>DB_HOST\<close> and \<open>DB_PASSWORD\<close> and the annotation has
  no key mapping. The run succeeds. The object it hands to \<open>Update\<close> is the one read from
  the store with \<open>StringData\<close> set to the merged payload and \<open>Data\<close> as it was read, so
  the payload the store keeps has the three keys: \<open>stale\<close>, which the merged payload
  does not have, is not removed.
\<close>

theorem update_keeps_stale_keys:
  "fst (run_example annotation_plain (Some (example_secret [(ManagedByLabel, ManagedByValue)])))
     = (\<lparr>Requeue = False\<rparr>, None)
   \<and> Writes (snd (run_example annotation_plain
                    (Some (example_secret [(ManagedByLabel, ManagedByValue)]))))
     = [UpdateCall
          \<lparr>Secret.Name = ''db-credentials'', Namespace = ''default'',
           Labels = [(''app.kubernetes.io/managed-by'', ''jasm'')],
           Annotations = [(''jasm.codnod.io/source-path'', ''/prod/myapp/database''),
                          (''jasm.codnod.io/synced-at'', ''2025-10-24T12:00:00Z'')],
           Data = [(''stale'', ''old'')],
           StringData = [(''DB_HOST'', ''h''), (''DB_PASSWORD'', ''p'')],
           Type = ''Opaque''\<rparr>]
   \<and> secretStringData [] [(''DB_HOST'', ''h''), (''DB_PASSWORD'', ''p'')]
     = [(''DB_HOST'', ''h''), (''DB_PASSWORD'', ''p'')]
   \<and> map_option Data
        (Secrets (snd (run_example annotation_plain
                         (Some (example_secret [(ManagedByLabel, ManagedByValue)]))))
           (''default'', ''db-credentials''))
     = Some [(''stale'', ''old''), (''DB_HOST'', ''h''), (''DB_PASSWORD'', ''p'')]"
  by (simp add: example_defs code_defs example_secret_def)

section \<open>The reverse lookup\<close>

text \<open>
  The loop of \<open>findPodsForSecret\<close> appends, in the order of the list, the pods that carry
  the annotation, whose annotation parses, and whose request names the secret.
\<close>

lemma findPods_loop_filter:
  "findPods_loop unmarshal secretName items requests =
    requests @ map (\<lambda>pod. (Pod.Namespace pod, Pod.Name pod))
      (filter (\<lambda>pod. \<exists>annotationValue syncRequest.
                 map_of (Pod.Annotations pod) AnnotationKey = Some annotationValue
                 \<and> ParseAnnotation unmarshal annotationValue (Pod.Namespace pod) (Pod.Name pod)
                       (UID pod) = Inr syncRequest
                 \<and> SecretSyncRequest.SecretName syncRequest = secretName) items)"
proof (induction items arbitrary: requests)
  case Nil
  then show ?case by simp
next
  case (Cons pod items)
  show ?case
  proof (cases "map_of (Pod.Annotations pod) AnnotationKey")
    case None
    then show ?thesis using Cons.IH by simp
  next
    case (Some annotationValue)
    then have ix: "index (Pod.Annotations pod) AnnotationKey = annotationValue"
      by (simp add: index_def)
    show ?thesis
    proof (cases "ParseAnnotation unmarshal annotationValue (Pod.Namespace pod) (Pod.Name pod)
        (UID pod)")
      case (Inl err)
      then show ?thesis using Some ix Cons.IH by simp
    next
      case (Inr syncRequest)
      then show ?thesis using Some ix Cons.IH by simp
    qed
  qed
qed

text \<open>
  C7, as the code has it. For a secret without the managed-by label nothing is enqueued.
  For a secret with the label, when the listing of the pods succeeds, the requests
  enqueued are exactly the pods of the secret's namespace that carry the sync annotation,
  whose annotation parses, and whose parsed secret name is the secret's name, each once
  and in the order of the listing. When the listing fails, nothing is enqueued.
\<close>

theorem findPodsForSecret_exact:
  "(index (Secret.Labels secret) ManagedByLabel \<noteq> ManagedByValue \<longrightarrow>
      findPodsForSecret env w secret = [])
   \<and> (index (Secret.Labels secret) ManagedByLabel = ManagedByValue \<and> ListErr env = None \<longrightarrow>
      findPodsForSecret env w secret =
        map (\<lambda>pod. (Pod.Namespace pod, Pod.Name pod))
          (filter (\<lambda>pod. Pod.Namespace pod = Secret.Namespace secret
                     \<and> (\<exists>annotationValue syncRequest.
                           map_of (Pod.Annotations pod) AnnotationKey = Some annotationValue
                           \<and> ParseAnnotation (yaml_Unmarshal env) annotationValue
                                 (Pod.Namespace pod) (Pod.Name pod) (UID pod) = Inr syncRequest
                           \<and> SecretSyncRequest.SecretName syncRequest = Secret.Name secret))
             (Pods w)))
   \<and> (ListErr env = Some err \<longrightarrow> findPodsForSecret env w secret = [])"
  by (simp add: findPodsForSecret_def List_Pods_def findPods_loop_filter conj_commute)

text \<open>
  In the example cluster only \<open>default/web\<close> references \<open>default/db-credentials\<close>: the
  pod \<open>plain\<close> has no annotation, \<open>api\<close> names another secret, \<open>prod/web\<close> is in
  another namespace and the annotation of \<open>broken\<close> does not parse. With the failing
  listing nothing is enqueued.
\<close>

theorem findPodsForSecret_exact_witness:
  "index (Secret.Labels (example_secret [(ManagedByLabel, ManagedByValue)])) ManagedByLabel
     = ManagedByValue
   \<and> ListErr example_env = None
   \<and> findPodsForSecret example_env example_cluster
        (example_secret [(ManagedByLabel, ManagedByValue)]) = [(''default'', ''web'')]
   \<and> index (Secret.Labels (example_secret [])) ManagedByLabel \<noteq> ManagedByValue
   \<and> findPodsForSecret example_env example_cluster (example_secret []) = []
   \<and> ListErr failing_list_env = Some (StatusError ''ServiceUnavailable'')
   \<and> findPodsForSecret failing_list_env example_cluster
        (example_secret [(ManagedByLabel, ManagedByValue)]) = []"
  using findPodsForSecret_exact [of "example_secret [(ManagedByLabel, ManagedByValue)]"
      example_env example_cluster]
    findPodsForSecret_exact [of "example_secret []" example_env example_cluster]
    findPodsForSecret_exact [of "example_secret [(ManagedByLabel, ManagedByValue)]"
      failing_list_env example_cluster "StatusError ''ServiceUnavailable''"]
  by (simp add: example_defs code_defs example_cluster_def example_secret_def
      failing_list_env_def)

text \<open>
  C7 as stated fails: the pod \<open>default/web\<close> is in the namespace of the labelled secret
  \<open>default/db-credentials\<close>, carries the annotation, its annotation parses and names the
  secret, and yet, the \<open>List\<close> call failing, \<open>findPodsForSecret\<close> returns at its error
  check and enqueues nothing.
\<close>

theorem list_failure_enqueues_nothing:
  "index (Secret.Labels (example_secret [(ManagedByLabel, ManagedByValue)])) ManagedByLabel
     = ManagedByValue
   \<and> example_pod ''default'' ''web'' annotation_plain \<in> set (Pods example_cluster)
   \<and> Pod.Namespace (example_pod ''default'' ''web'' annotation_plain)
     = Secret.Namespace (example_secret [(ManagedByLabel, ManagedByValue)])
   \<and> map_of (Pod.Annotations (example_pod ''default'' ''web'' annotation_plain)) AnnotationKey
     = Some annotation_plain
   \<and> ParseAnnotation (yaml_Unmarshal failing_list_env) annotation_plain ''default'' ''web''
        ''uid-123''
     = Inr \<lparr>SecretSyncRequest.Provider = ''aws-secretsmanager'',
            SecretPath = ''/prod/myapp/database'',
            SecretName = Secret.Name (example_secret [(ManagedByLabel, ManagedByValue)]),
            Namespace = ''default'', PodName = ''web'', PodUID = ''uid-123'',
            KeyMapping = []\<rparr>
   \<and> findPodsForSecret failing_list_env example_cluster
        (example_secret [(ManagedByLabel, ManagedByValue)]) = []"
  by (simp add: example_defs code_defs example_cluster_def example_secret_def
      failing_list_env_def)

end
